theory Spec2Isabelle
  imports Complex_Main "HOL-Library.State_Monad" "HOL-Library.Sublist"
begin

section \<open>numpy arrays\<close>

text \<open>
  The script \<^verbatim>\<open>run_py_openmdao_ccblade.py\<close> handles numpy arrays in one place of
  its own, the closure \<^verbatim>\<open>ccblade_interp\<close>. An array is its shape, its layout and
  its elements. \<open>data\<close> holds the elements in logical row-major (C) order, the
  order in which \<^verbatim>\<open>a.flatten()\<close> lists them. \<open>strides\<close> is the layout in memory:
  for each axis, the number of elements to step over to reach the next index. A
  view such as \<^verbatim>\<open>x.T\<close> has the elements of \<open>x\<close> and other strides. None of the
  operations below computes with an element, so the element type is a parameter.
\<close>

datatype py_error = ValueError | IndexError | AttributeError | ExternalError

record 'a ndarray =
  shape :: "nat list"
  strides :: "int list"
  data :: "'a list"


text \<open>
  The strides numpy gives a new array of a shape: the last axis has stride 1, and
  each axis before steps over all the axes after it (an axis of length 0 counts
  as one of length 1).
\<close>

fun c_strides :: "nat list \<Rightarrow> int list" where
  "c_strides [] = []"
| "c_strides (d # ds) =
     int (prod_list (map (\<lambda>k. if k = 0 then 1 else k) ds)) # c_strides ds"

text \<open>
  The flag \<^verbatim>\<open>C_CONTIGUOUS\<close>: walking the axes from the last one, every axis whose
  length is not 1 has the stride of a new array; an array with an axis of length
  0 is contiguous by definition. \<open>contiguous_from\<close> takes the axes last one first.
\<close>

fun contiguous_from :: "(nat \<times> int) list \<Rightarrow> int \<Rightarrow> bool" where
  "contiguous_from [] sd = True"
| "contiguous_from ((d, s) # axes) sd =
     (if d = 1 then contiguous_from axes sd
      else s = sd \<and> contiguous_from axes (sd * int d))"

definition is_c_contiguous :: "'a ndarray \<Rightarrow> bool" where
  "is_c_contiguous a =
     (0 \<in> set (shape a) \<or> contiguous_from (rev (zip (shape a) (strides a))) 1)"

text \<open>\<^verbatim>\<open>a.flatten()\<close>: a one-dimensional copy.\<close>

definition flatten :: "'a ndarray \<Rightarrow> 'a ndarray" where
  "flatten a = \<lparr>shape = [length (data a)], strides = [1], data = data a\<rparr>"

text \<open>\<^verbatim>\<open>a[:, np.newaxis]\<close>: a new axis of length 1 and stride 0 after the first one;
  a 0-d array has no first axis to slice.\<close>

definition newaxis1 :: "'a ndarray \<Rightarrow> py_error + 'a ndarray" where
  "newaxis1 a =
     (case (shape a, strides a) of
        (d # ds, s # ss) \<Rightarrow> Inr \<lparr>shape = d # 1 # ds, strides = s # 0 # ss, data = data a\<rparr>
      | _ \<Rightarrow> Inl IndexError)"

text \<open>\<^verbatim>\<open>np.concatenate([a, b], axis=-1)\<close>: the leading dimensions must agree; row
  \<open>i\<close> of the result, a new array, is row \<open>i\<close> of \<open>a\<close> followed by row \<open>i\<close> of \<open>b\<close>.\<close>

definition concatenate_last :: "'a ndarray \<Rightarrow> 'a ndarray \<Rightarrow> py_error + 'a ndarray" where
  "concatenate_last a b =
     (if shape a = [] \<or> shape b = [] \<or> butlast (shape a) \<noteq> butlast (shape b)
      then Inl ValueError
      else let n = prod_list (butlast (shape a));
               p = last (shape a);
               q = last (shape b)
           in Inr \<lparr>shape = butlast (shape a) @ [p + q],
                   strides = c_strides (butlast (shape a) @ [p + q]),
                   data = concat (map (\<lambda>i. take p (drop (i * p) (data a)) @
                                            take q (drop (i * q) (data b))) [0..<n])\<rparr>)"

text \<open>
  Reshaping without a copy, as numpy attempts it for an array that is not
  contiguous. The old axes (those of length 1 left out) and the new axes are
  matched in groups of equal size. The old axes of a group must lie in memory
  like the axes of one contiguous block, each stride the next one times the next
  length; the new axes of the group then get the strides of that block.
  \<open>group_strides ds s\<close> are the strides of new axes \<open>ds\<close> whose last stride is \<open>s\<close>.
\<close>

definition group_strides :: "nat list \<Rightarrow> int \<Rightarrow> int list" where
  "group_strides ds s = map (\<lambda>k. s * int (prod_list (drop (Suc k) ds))) [0..<length ds]"

fun combinable :: "(nat \<times> int) list \<Rightarrow> bool" where
  "combinable ((d, s) # (d', s') # axes) = (s = int d' * s' \<and> combinable ((d', s') # axes))"
| "combinable _ = True"

text \<open>
  \<open>reshape_loop np op ng og news olds acc\<close>: the group being matched has the new
  axes \<open>ng\<close>, of size \<open>np\<close>, and the old axes \<open>og\<close>, of size \<open>op\<close>; \<open>news\<close> and \<open>olds\<close>
  are the axes not yet looked at and \<open>acc\<close> the new strides found so far. When the
  old axes are used up, the new axes left over (of length 1) take the last stride.
\<close>

fun reshape_loop ::
  "nat \<Rightarrow> nat \<Rightarrow> nat list \<Rightarrow> (nat \<times> int) list \<Rightarrow> nat list \<Rightarrow> (nat \<times> int) list \<Rightarrow> int list \<Rightarrow>
   int list option" where
  "reshape_loop np op ng og news olds acc =
     (if np = op then
        (if combinable og then
           (let acc' = acc @ group_strides ng (snd (last og)) in
            case news of
              [] \<Rightarrow> Some acc'
            | d # news' \<Rightarrow>
                (case olds of
                   [] \<Rightarrow> Some (acc' @ replicate (length news) (last acc'))
                 | x # olds' \<Rightarrow> reshape_loop d (fst x) [d] [x] news' olds' acc'))
         else None)
      else if np < op then
        (case news of
           [] \<Rightarrow> None
         | d # news' \<Rightarrow> reshape_loop (np * d) op (ng @ [d]) og news' olds acc)
      else
        (case olds of
           [] \<Rightarrow> None
         | x # olds' \<Rightarrow> reshape_loop np (op * fst x) ng (og @ [x]) news olds' acc))"

definition nocopy_reshape :: "nat list \<Rightarrow> int list \<Rightarrow> nat list \<Rightarrow> int list option" where
  "nocopy_reshape shp st news =
     (case news of
        [] \<Rightarrow> Some []
      | d # news' \<Rightarrow>
          (case filter (\<lambda>(k, s). k \<noteq> 1) (zip shp st) of
             [] \<Rightarrow> Some (replicate (length news) 1)
           | x # olds' \<Rightarrow> reshape_loop d (fst x) [d] [x] news' olds' []))"

text \<open>
  \<^verbatim>\<open>y.shape = s\<close> reshapes in place. It raises ValueError when the sizes differ.
  An array that is contiguous, or has at most one element, takes the strides of
  a new array of shape \<open>s\<close>. Any other array keeps its memory only if the reshape
  needs no copy; when it needs one the assignment raises AttributeError and
  leaves the array as it was. The logical order of the elements never changes.
\<close>

definition set_shape :: "'a ndarray \<Rightarrow> nat list \<Rightarrow> py_error + 'a ndarray" where
  "set_shape y s =
     (if prod_list s \<noteq> length (data y) then Inl ValueError
      else if length (data y) \<le> 1 \<or> is_c_contiguous y
        then Inr (y\<lparr>shape := s, strides := c_strides s\<rparr>)
      else (case nocopy_reshape (shape y) (strides y) s of
              None \<Rightarrow> Inl AttributeError
            | Some st \<Rightarrow> Inr (y\<lparr>shape := s, strides := st\<rparr>)))"

text \<open>\<^verbatim>\<open>y[..., i]\<close>: element \<open>i\<close> along the last axis, for a non-negative \<open>i\<close>; a view
  on the other axes.\<close>

definition index_last :: "'a ndarray \<Rightarrow> nat \<Rightarrow> py_error + 'a ndarray" where
  "index_last y i =
     (if shape y = [] then Inl IndexError
      else let d = last (shape y) in
        if d \<le> i then Inl IndexError
        else Inr \<lparr>shape = butlast (shape y),
                  strides = butlast (strides y),
                  data = map (\<lambda>k. data y ! (k * d + i)) [0..<prod_list (butlast (shape y))]\<rparr>)"

text \<open>\<^verbatim>\<open>x.T\<close> of a two-dimensional \<open>x\<close>: the same memory, the axes swapped.\<close>

definition transpose2 :: "'a ndarray \<Rightarrow> 'a ndarray" where
  "transpose2 x =
     (case shape x of
        [r, c] \<Rightarrow> \<lparr>shape = [c, r], strides = rev (strides x),
                    data = concat (map (\<lambda>j. map (\<lambda>i. data x ! (i * c + j)) [0..<r]) [0..<c])\<rparr>
      | _ \<Rightarrow> x)"

section \<open>The airfoil callback\<close>

text \<open>
  \<^verbatim>\<open>interp\<close> is created by the external \<^verbatim>\<open>ViternaAirfoil().create_akima\<close>; the model
  takes it as a parameter, a function that returns an array or raises.
  The source's argument \<^verbatim>\<open>Re\<close> is written \<open>Re'\<close> here.
\<close>

type_synonym 'a interpolant = "'a ndarray \<Rightarrow> py_error + 'a ndarray"

definition ccblade_interp ::
  "'a interpolant \<Rightarrow> 'a ndarray \<Rightarrow> 'a ndarray \<Rightarrow> 'm \<Rightarrow> py_error + ('a ndarray \<times> 'a ndarray)" where
  "ccblade_interp interp alpha Re' Mach =
     (let shp = shape alpha in
      case newaxis1 (flatten alpha) of Inl e \<Rightarrow> Inl e | Inr a \<Rightarrow>
     (case newaxis1 (flatten Re') of Inl e \<Rightarrow> Inl e | Inr r \<Rightarrow>
     (case concatenate_last a r of Inl e \<Rightarrow> Inl e | Inr x \<Rightarrow>
     (case interp x of Inl e \<Rightarrow> Inl e | Inr y \<Rightarrow>
     (case set_shape y (shp @ [2]) of Inl e \<Rightarrow> Inl e | Inr y' \<Rightarrow>
     (case index_last y' 0 of Inl e \<Rightarrow> Inl e | Inr cl \<Rightarrow>
     (case index_last y' 1 of Inl e \<Rightarrow> Inl e | Inr cd \<Rightarrow>
        Inr (cl, cd))))))))"


section \<open>External calls\<close>

text \<open>
  Everything else the script does is a call into a library that is not part of
  the repository: the optimisation framework, the blade-element library,
  matplotlib, \<^verbatim>\<open>time\<close>. The model records each such call, with its receiver and
  its arguments, in the order the script makes it. Python floats are modelled as
  real numbers; the script only passes them on, subtracts two clock readings and
  scales two arrays.
\<close>

type_synonym airfoil_fn =
  "real ndarray \<Rightarrow> real ndarray \<Rightarrow> real ndarray \<Rightarrow> py_error + (real ndarray \<times> real ndarray)"

text \<open>
  The values the script passes to a call or gets back from one. \<open>PObj k i\<close> is
  the \<open>i\<close>-th object returned by call number \<open>k\<close> of the run (a constructor
  returns one object, \<^verbatim>\<open>plt.subplots()\<close> a figure and an axes); \<open>PNone\<close> as a
  receiver stands for a name of the module's own namespace. \<open>PFString\<close> is an
  f-string, its literal pieces and formatted values in order.
\<close>

datatype pyval =
    PNone
  | PBool bool
  | PInt int
  | PFloat real
  | PStr string
  | PList "pyval list"
  | PFString "pyval list"
  | PArray "real list"
  | PIntArray "int list"
  | PObj nat nat
  | PFun airfoil_fn

text \<open>
  \<open>Call recv f args kwargs\<close> is \<^verbatim>\<open>recv.f(*args, **kwargs)\<close>, where \<open>f\<close> may be a
  dotted path (\<^verbatim>\<open>prob.model.add_subsystem\<close> is a call on \<open>prob\<close> of
  \<open>''model.add_subsystem''\<close>). \<open>SetAttr recv a v\<close> is \<^verbatim>\<open>recv.a = v\<close>,
  \<open>SetItem recv a k v\<close> is \<^verbatim>\<open>recv.a[k] = v\<close> and \<open>GetItem recv a k\<close> reads
  \<^verbatim>\<open>recv.a[k]\<close>.
\<close>

datatype event =
    Import string
  | Call pyval string "pyval list" "(string \<times> pyval) list"
  | SetAttr pyval string pyval
  | SetItem pyval string pyval pyval
  | GetItem pyval string pyval

text \<open>
  The state of a run: \<open>trace\<close> holds the external calls that have returned, in
  order, and \<open>exc\<close> the exception that is propagating, if any. The other fields
  are the environment, which no statement of the script changes: \<open>fails k\<close>
  tells whether the call made as number \<open>k\<close> raises, and \<open>clock\<close>, \<open>arrays\<close>,
  \<open>ints\<close> and \<open>interps\<close> give what call number \<open>k\<close> returns when it is a clock
  reading, a \<^verbatim>\<open>get_val\<close> (a two-dimensional array, as its rows), an option lookup
  or \<^verbatim>\<open>create_akima\<close>.
\<close>

record world =
  trace :: "event list"
  exc :: "py_error option"
  fails :: "nat \<Rightarrow> bool"
  clock :: "nat \<Rightarrow> real"
  arrays :: "nat \<Rightarrow> real list list"
  ints :: "nat \<Rightarrow> int"
  interps :: "nat \<Rightarrow> real interpolant"

text \<open>
  One external call. The script has no \<^verbatim>\<open>try\<close>: once an exception propagates,
  no later statement runs, so a call made while \<open>exc\<close> is set does nothing. The
  result is the number of the call.
\<close>

definition ext :: "event \<Rightarrow> (world, nat) state" where
  "ext ev = State (\<lambda>w.
     let k = length (trace w) in
     if exc w \<noteq> None then (k, w)
     else if fails w k then (k, w\<lparr>exc := Some ExternalError\<rparr>)
     else (k, w\<lparr>trace := trace w @ [ev]\<rparr>))"

definition raise :: "py_error \<Rightarrow> (world, unit) state" where
  "raise e = State (\<lambda>w. if exc w \<noteq> None then ((), w) else ((), w\<lparr>exc := Some e\<rparr>))"

definition import_module :: "string \<Rightarrow> (world, unit) state" where
  "import_module m = do { _ \<leftarrow> ext (Import m); State_Monad.return () }"

definition call :: "pyval \<Rightarrow> string \<Rightarrow> pyval list \<Rightarrow> (string \<times> pyval) list \<Rightarrow> (world, unit) state" where
  "call recv f args kwargs = do { _ \<leftarrow> ext (Call recv f args kwargs); State_Monad.return () }"

definition new :: "string \<Rightarrow> pyval list \<Rightarrow> (string \<times> pyval) list \<Rightarrow> (world, pyval) state" where
  "new cls args kwargs =
     do { k \<leftarrow> ext (Call PNone cls args kwargs); State_Monad.return (PObj k 0) }"

definition setattr :: "pyval \<Rightarrow> string \<Rightarrow> pyval \<Rightarrow> (world, unit) state" where
  "setattr recv a v = do { _ \<leftarrow> ext (SetAttr recv a v); State_Monad.return () }"

definition setitem :: "pyval \<Rightarrow> string \<Rightarrow> pyval \<Rightarrow> pyval \<Rightarrow> (world, unit) state" where
  "setitem recv a key v = do { _ \<leftarrow> ext (SetItem recv a key v); State_Monad.return () }"

definition getitem_int :: "pyval \<Rightarrow> string \<Rightarrow> pyval \<Rightarrow> (world, int) state" where
  "getitem_int recv a key =
     do { k \<leftarrow> ext (GetItem recv a key); w \<leftarrow> State_Monad.get; State_Monad.return (ints w k) }"

definition time_time :: "(world, real) state" where
  "time_time =
     do { k \<leftarrow> ext (Call PNone ''time.time'' [] []); w \<leftarrow> State_Monad.get;
          State_Monad.return (clock w k) }"

definition create_akima :: "pyval \<Rightarrow> string \<Rightarrow> bool \<Rightarrow> bool \<Rightarrow> (world, real interpolant) state" where
  "create_akima recv name Re_scaling extend_alpha =
     do { k \<leftarrow> ext (Call recv ''create_akima'' [PStr name]
                       [(''Re_scaling'', PBool Re_scaling), (''extend_alpha'', PBool extend_alpha)]);
          w \<leftarrow> State_Monad.get;
          State_Monad.return (interps w k) }"

definition get_val :: "pyval \<Rightarrow> string \<Rightarrow> string \<Rightarrow> (world, real list list) state" where
  "get_val prob name units =
     do { k \<leftarrow> ext (Call prob ''get_val'' [PStr name] [(''units'', PStr units)]);
          w \<leftarrow> State_Monad.get;
          State_Monad.return (arrays w k) }"

definition subplots :: "(world, pyval \<times> pyval) state" where
  "subplots =
     do { k \<leftarrow> ext (Call PNone ''plt.subplots'' [] []); State_Monad.return (PObj k 0, PObj k 1) }"

text \<open>\<^verbatim>\<open>a[i, :]\<close> on a two-dimensional array: row \<open>i\<close>, or an IndexError.\<close>

definition index_row :: "real list list \<Rightarrow> nat \<Rightarrow> (world, real list) state" where
  "index_row a i =
     (if i < length a then State_Monad.return (a ! i)
      else do { raise IndexError; State_Monad.return [] })"

text \<open>
  The numpy functions the script applies to its own numbers, as numpy documents
  them: \<^verbatim>\<open>np.linspace\<close> (\<open>num\<close> samples, the last one \<open>stop\<close> itself),
  \<^verbatim>\<open>np.arange\<close>, \<^verbatim>\<open>np.mean\<close> and \<^verbatim>\<open>np.std\<close> (the population standard deviation).
\<close>

definition linspace :: "real \<Rightarrow> real \<Rightarrow> nat \<Rightarrow> real list" where
  "linspace start stop num =
     (if num = 0 then []
      else if num = 1 then [start]
      else map (\<lambda>i. start + real i * ((stop - start) / real (num - 1))) [0..<num - 1] @ [stop])"

definition arange :: "nat \<Rightarrow> int list" where
  "arange n = map int [0..<n]"

definition mean :: "real list \<Rightarrow> real" where
  "mean xs = sum_list xs / real (length xs)"

definition std :: "real list \<Rightarrow> real" where
  "std xs = sqrt (mean (map (\<lambda>x. (x - mean xs)\<^sup>2) xs))"

section \<open>The script\<close>

text \<open>\<^verbatim>\<open>make_plots(prob)\<close>. The statement \<^verbatim>\<open>del fig\<close> only unbinds a local name.\<close>

definition make_plots :: "pyval \<Rightarrow> (world, unit) state" where
  "make_plots prob = do {
     import_module ''matplotlib.pyplot'';
     let node = 0;
     num_blades \<leftarrow> getitem_int prob ''model.ccblade_group.ccblade_comp.options'' (PStr ''num_blades'');
     a \<leftarrow> get_val prob ''radii'' ''m'';
     radii \<leftarrow> index_row a node;
     a \<leftarrow> get_val prob ''ccblade_group.Np'' ''N/m'';
     r \<leftarrow> index_row a node;
     let ccblade_normal_load = map (\<lambda>v. v * real_of_int num_blades) r;
     a \<leftarrow> get_val prob ''ccblade_group.Tp'' ''N/m'';
     r \<leftarrow> index_row a node;
     let ccblade_circum_load = map (\<lambda>v. v * real_of_int num_blades) r;

     (fig, ax) \<leftarrow> subplots;
     call ax ''plot'' [PArray radii, PArray ccblade_normal_load] [(''label'', PStr ''CCBlade.jl'')];
     call ax ''set_xlabel'' [PStr ''blade element radius, m''] [];
     call ax ''set_ylabel'' [PStr ''normal load, N/m''] [];
     call ax ''legend'' [] [];
     let fname = ''pyccblade_normal_load.png'';
     call PNone ''print'' [PStr fname] [];
     call fig ''savefig'' [PStr fname] [];
     call PNone ''plt.close'' [fig] [];

     (fig, ax) \<leftarrow> subplots;
     call ax ''plot'' [PArray radii, PArray ccblade_circum_load] [(''label'', PStr ''CCBlade.jl'')];
     call ax ''set_xlabel'' [PStr ''blade element radius, m''] [];
     call ax ''set_ylabel'' [PStr ''circumferential load, N/m''] [];
     call ax ''legend'' [] [];
     let fname = ''pyccblade_circum_load.png'';
     call PNone ''print'' [PStr fname] [];
     call fig ''savefig'' [PStr fname] [];
     call PNone ''plt.close'' [fig] []
   }"

text \<open>
  \<^verbatim>\<open>main()\<close>. The closure \<^verbatim>\<open>ccblade_interp\<close> is \<open>ccblade_interp interp\<close>, handed to
  \<^verbatim>\<open>CCBladeGroup\<close> as \<^verbatim>\<open>airfoil_interp\<close>.
\<close>

definition main :: "(world, real) state" where
  "main = do {
     va \<leftarrow> new ''ViternaAirfoil'' [] [];
     interp \<leftarrow> create_akima va ''mh117'' False True;

     let num_nodes = (1 :: nat);
     let num_blades = (3 :: int);
     let num_radial = (15 :: int);
     let num_cp = (6 :: nat);
     let chord = (10 :: real);
     let theta = map (\<lambda>x. x * pi / 180) (linspace 65 25 num_cp);
     let pitch = (0 :: real);

     let hub_diameter = (30 :: real);
     let prop_diameter = (150 :: real);
     let c0 = sqrt (1.4 * 287.058 * 300);
     let rho0 = 1.4 * 98600 / (c0 * c0);
     let omega = (236 :: real);

     prob \<leftarrow> new ''Problem'' [] [];

     comp \<leftarrow> new ''IndepVarComp'' [] [];
     call comp ''add_discrete_input'' [PStr ''B''] [(''val'', PInt num_blades)];
     call comp ''add_output'' [PStr ''rho'']
       [(''val'', PFloat rho0), (''shape'', PInt (int num_nodes)), (''units'', PStr ''kg/m**3'')];
     call comp ''add_output'' [PStr ''mu'']
       [(''val'', PFloat 1), (''shape'', PInt (int num_nodes)), (''units'', PStr ''N/m**2*s'')];
     call comp ''add_output'' [PStr ''asound'']
       [(''val'', PFloat c0), (''shape'', PInt (int num_nodes)), (''units'', PStr ''m/s'')];
     call comp ''add_output'' [PStr ''v'']
       [(''val'', PFloat 77.2), (''shape'', PInt (int num_nodes)), (''units'', PStr ''m/s'')];
     call comp ''add_output'' [PStr ''alpha'']
       [(''val'', PFloat 0), (''shape'', PInt (int num_nodes)), (''units'', PStr ''rad'')];
     call comp ''add_output'' [PStr ''incidence'']
       [(''val'', PFloat 0), (''shape'', PInt (int num_nodes)), (''units'', PStr ''rad'')];
     call comp ''add_output'' [PStr ''precone'']
       [(''val'', PFloat 0), (''units'', PStr ''deg'')];
     call comp ''add_output'' [PStr ''omega'']
       [(''val'', PFloat omega), (''shape'', PInt (int num_nodes)), (''units'', PStr ''rad/s'')];
     call comp ''add_output'' [PStr ''hub_diameter'']
       [(''val'', PFloat hub_diameter), (''shape'', PInt (int num_nodes)), (''units'', PStr ''cm'')];
     call comp ''add_output'' [PStr ''prop_diameter'']
       [(''val'', PFloat prop_diameter), (''shape'', PInt (int num_nodes)), (''units'', PStr ''cm'')];
     call comp ''add_output'' [PStr ''pitch'']
       [(''val'', PFloat pitch), (''shape'', PInt (int num_nodes)), (''units'', PStr ''rad'')];
     call comp ''add_output'' [PStr ''chord_dv'']
       [(''val'', PFloat chord), (''shape'', PInt (int num_cp)), (''units'', PStr ''cm'')];
     call comp ''add_output'' [PStr ''theta_dv'']
       [(''val'', PArray theta), (''shape'', PInt (int num_cp)), (''units'', PStr ''rad'')];
     call prob ''model.add_subsystem'' [PStr ''indep_var_comp'', comp]
       [(''promotes'', PList [PStr ''*''])];

     comp \<leftarrow> new ''GeometryGroup'' []
       [(''num_nodes'', PInt (int num_nodes)), (''num_cp'', PInt (int num_cp)),
        (''num_radial'', PInt num_radial)];
     call prob ''model.add_subsystem'' [PStr ''geometry_group'', comp]
       [(''promotes_inputs'',
           PList [PStr ''hub_diameter'', PStr ''prop_diameter'', PStr ''chord_dv'',
                  PStr ''theta_dv'', PStr ''pitch'']),
        (''promotes_outputs'',
           PList [PStr ''radii'', PStr ''dradii'', PStr ''chord'', PStr ''theta''])];

     comp \<leftarrow> new ''SimpleInflow'' []
       [(''num_nodes'', PInt (int num_nodes)), (''num_radial'', PInt num_radial)];
     call prob ''model.add_subsystem'' [PStr ''inflow_comp'', comp]
       [(''promotes_inputs'', PList [PStr ''v'', PStr ''omega'', PStr ''radii'', PStr ''precone'']),
        (''promotes_outputs'', PList [PStr ''Vx'', PStr ''Vy''])];

     comp \<leftarrow> new ''CCBladeGroup'' []
       [(''num_nodes'', PInt (int num_nodes)), (''num_radial'', PInt num_radial),
        (''num_blades'', PInt num_blades),
        (''airfoil_interp'', PFun (ccblade_interp interp)), (''turbine'', PBool False),
        (''phi_residual_solve_nonlinear'', PStr ''bracketing'')];
     call prob ''model.add_subsystem'' [PStr ''ccblade_group'', comp]
       [(''promotes_inputs'',
           PList [PStr ''radii'', PStr ''dradii'', PStr ''chord'', PStr ''theta'', PStr ''rho'',
                  PStr ''mu'', PStr ''asound'', PStr ''v'', PStr ''omega'', PStr ''Vx'', PStr ''Vy'',
                  PStr ''precone'', PStr ''hub_diameter'', PStr ''prop_diameter'']),
        (''promotes_outputs'', PList [PStr ''thrust'', PStr ''torque'', PStr ''efficiency''])];

     call prob ''model.add_design_var'' [PStr ''chord_dv'']
       [(''lower'', PFloat 1), (''upper'', PFloat 20), (''scaler'', PFloat (5 / 100))];
     call prob ''model.add_design_var'' [PStr ''theta_dv'']
       [(''lower'', PFloat (20 * pi / 180)), (''upper'', PFloat (90 * pi / 180))];

     call prob ''model.add_objective'' [PStr ''efficiency''] [(''scaler'', PFloat (- 1))];
     call prob ''model.add_constraint'' [PStr ''thrust'']
       [(''equals'', PFloat 700), (''scaler'', PFloat (1 / 1000)),
        (''indices'', PIntArray (arange num_nodes))];
     driver \<leftarrow> new ''pyOptSparseDriver'' [] [];
     setattr prob ''driver'' driver;
     setitem prob ''driver.options'' (PStr ''optimizer'') (PStr ''SNOPT'');

     call prob ''setup'' [] [];
     call prob ''final_setup'' [] [];
     st \<leftarrow> time_time;
     call prob ''run_driver'' [] [];
     t \<leftarrow> time_time;
     let elapsed_time = t - st;

     make_plots prob;

     State_Monad.return elapsed_time
   }"

text \<open>
  The module body: the imports, and the block under
  \<^verbatim>\<open>if __name__ == "__main__"\<close>, with \<^verbatim>\<open>__name__\<close> as the parameter \<open>name\<close>.
\<close>

definition script :: "string \<Rightarrow> (world, unit) state" where
  "script name = do {
     import_module ''time'';
     import_module ''numpy'';
     import_module ''openmdao.api'';
     import_module ''openbemt.airfoils.process_airfoils'';
     import_module ''ccblade.geometry'';
     import_module ''ccblade.inflow'';
     import_module ''ccblade.ccblade_py'';
     if name = ''__main__'' then do {
       _ \<leftarrow> main;
       times \<leftarrow> State_Monad.traverse_list (\<lambda>_. main) [0..<20];
       call PNone ''print''
         [PFString [PStr ''average walltime = '', PFloat (mean times), PStr '' s, stddev = '',
                    PFloat (std times), PStr '' s'']] []
     } else State_Monad.return ()
   }"

section \<open>Runs of the script\<close>

text \<open>
  The notions the properties are stated with. \<open>calls_of m w\<close> is the list of
  external calls that \<open>m\<close> makes (and that return) when it starts in \<open>w\<close>.
\<close>

definition calls_of :: "(world, 'a) state \<Rightarrow> world \<Rightarrow> event list" where
  "calls_of m w = drop (length (trace w)) (trace (snd (run_state m w)))"

text \<open>The same environment, but no external call raises.\<close>

definition nofail :: "world \<Rightarrow> world" where
  "nofail w = w\<lparr>fails := \<lambda>_. False\<rparr>"

text \<open>Two states with the same environment.\<close>

definition same_env :: "world \<Rightarrow> world \<Rightarrow> bool" where
  "same_env w w' =
     (fails w' = fails w \<and> clock w' = clock w \<and> arrays w' = arrays w \<and> ints w' = ints w \<and>
      interps w' = interps w)"

text \<open>
  \<open>straight m\<close>: \<open>m\<close> is straight-line code over external calls. It does nothing
  while an exception propagates, it only adds calls to the trace, it leaves the
  environment alone, and a run in which a call raises is a run without failures
  cut short: a run that completes makes the same calls and returns the same
  value as the run in \<open>nofail w\<close>, and a run that raises has made an initial part
  of those calls.
\<close>

definition straight :: "(world, 'a) state \<Rightarrow> bool" where
  "straight m = (\<forall>w.
     (exc w \<noteq> None \<longrightarrow> snd (run_state m w) = w) \<and>
     (\<exists>es. trace (snd (run_state m w)) = trace w @ es) \<and>
     same_env w (snd (run_state m w)) \<and>
     (exc w = None \<longrightarrow>
        (exc (snd (run_state m w)) = None \<longrightarrow>
           run_state m (nofail w) = (fst (run_state m w), nofail (snd (run_state m w)))) \<and>
        (exc (snd (run_state m w)) \<noteq> None \<longrightarrow>
           (\<exists>es. trace (snd (run_state m (nofail w))) = trace (snd (run_state m w)) @ es))))"

text \<open>
  Evaluation of a sequence in program order: the first statement is run before
  the rest is looked at.
\<close>

definition then_run :: "('a \<times> world) \<Rightarrow> ('a \<Rightarrow> (world, 'b) state) \<Rightarrow> 'b \<times> world" where
  "then_run p f = run_state (f (fst p)) (snd p)"

text \<open>
  The method a call names, without the attribute path that leads to it, and
  tests for the kinds of event.
\<close>

definition method_name :: "string \<Rightarrow> string" where
  "method_name f = rev (takeWhile (\<lambda>c. c \<noteq> CHR ''.'') (rev f))"

fun is_call :: "string \<Rightarrow> event \<Rightarrow> bool" where
  "is_call f (Call recv g args kwargs) = (method_name g = f)"
| "is_call f _ = False"

fun is_setattr :: "string \<Rightarrow> event \<Rightarrow> bool" where
  "is_setattr a (SetAttr recv b v) = (method_name b = a)"
| "is_setattr a _ = False"

fun is_setitem :: "string \<Rightarrow> event \<Rightarrow> bool" where
  "is_setitem a (SetItem recv b k v) = (method_name b = a)"
| "is_setitem a _ = False"

text \<open>The positional arguments and a keyword argument of a call.\<close>

fun args_of :: "event \<Rightarrow> pyval list" where
  "args_of (Call recv f args kwargs) = args"
| "args_of _ = []"

fun kwarg :: "string \<Rightarrow> event \<Rightarrow> pyval option" where
  "kwarg k (Call recv f args kwargs) = map_of kwargs k"
| "kwarg k _ = None"

text \<open>
  The events of plotting: the import of matplotlib, the reads of the problem's
  values and every call on the figure, the axes and \<^verbatim>\<open>plt\<close>, \<^verbatim>\<open>print\<close> included.
\<close>

fun plotting :: "event \<Rightarrow> bool" where
  "plotting (Import m) = (m = ''matplotlib.pyplot'')"
| "plotting (GetItem recv a k) = True"
| "plotting (Call recv f args kwargs) =
     (f \<in> set [''get_val'', ''plt.subplots'', ''plot'', ''set_xlabel'', ''set_ylabel'',
                ''legend'', ''print'', ''savefig'', ''plt.close''])"
| "plotting _ = False"

text \<open>
  A value strictly inside two bounds: a float, or every entry of an array.
\<close>

fun strictly_inside :: "pyval option \<Rightarrow> pyval option \<Rightarrow> pyval option \<Rightarrow> bool" where
  "strictly_inside (Some (PFloat lo)) (Some (PFloat hi)) (Some (PFloat v)) = (lo < v \<and> v < hi)"
| "strictly_inside (Some (PFloat lo)) (Some (PFloat hi)) (Some (PArray vs)) =
     list_all (\<lambda>v. lo < v \<and> v < hi) vs"
| "strictly_inside _ _ _ = False"

text \<open>
  The calls of one complete run of \<^verbatim>\<open>make_plots(prob)\<close> that starts as call number
  \<open>n\<close>, with \<open>num_blades\<close> the option it reads and \<open>radii\<close>, \<open>Np\<close>, \<open>Tp\<close> row 0
  of the three arrays it fetches (lemma \<open>make_plots_run\<close>).
\<close>

definition plot_calls :: "pyval \<Rightarrow> int \<Rightarrow> real list \<Rightarrow> real list \<Rightarrow> real list \<Rightarrow> nat \<Rightarrow> event list" where
  "plot_calls prob num_blades radii Np Tp n =
     [Import ''matplotlib.pyplot'',
      GetItem prob ''model.ccblade_group.ccblade_comp.options'' (PStr ''num_blades''),
      Call prob ''get_val'' [PStr ''radii''] [(''units'', PStr ''m'')],
      Call prob ''get_val'' [PStr ''ccblade_group.Np''] [(''units'', PStr ''N/m'')],
      Call prob ''get_val'' [PStr ''ccblade_group.Tp''] [(''units'', PStr ''N/m'')],
      Call PNone ''plt.subplots'' [] [],
      Call (PObj (n + 5) 1) ''plot''
        [PArray radii, PArray (map (\<lambda>v. v * real_of_int num_blades) Np)]
        [(''label'', PStr ''CCBlade.jl'')],
      Call (PObj (n + 5) 1) ''set_xlabel'' [PStr ''blade element radius, m''] [],
      Call (PObj (n + 5) 1) ''set_ylabel'' [PStr ''normal load, N/m''] [],
      Call (PObj (n + 5) 1) ''legend'' [] [],
      Call PNone ''print'' [PStr ''pyccblade_normal_load.png''] [],
      Call (PObj (n + 5) 0) ''savefig'' [PStr ''pyccblade_normal_load.png''] [],
      Call PNone ''plt.close'' [PObj (n + 5) 0] [],
      Call PNone ''plt.subplots'' [] [],
      Call (PObj (n + 13) 1) ''plot''
        [PArray radii, PArray (map (\<lambda>v. v * real_of_int num_blades) Tp)]
        [(''label'', PStr ''CCBlade.jl'')],
      Call (PObj (n + 13) 1) ''set_xlabel'' [PStr ''blade element radius, m''] [],
      Call (PObj (n + 13) 1) ''set_ylabel'' [PStr ''circumferential load, N/m''] [],
      Call (PObj (n + 13) 1) ''legend'' [] [],
      Call PNone ''print'' [PStr ''pyccblade_circum_load.png''] [],
      Call (PObj (n + 13) 0) ''savefig'' [PStr ''pyccblade_circum_load.png''] [],
      Call PNone ''plt.close'' [PObj (n + 13) 0] []]"

text \<open>
  The calls of \<^verbatim>\<open>main()\<close> up to its second clock reading, when the run starts as
  call number \<open>n\<close> and \<^verbatim>\<open>create_akima\<close> returns \<open>interp\<close> (lemma \<open>main_run\<close>), and
  all calls of a complete run of \<^verbatim>\<open>main()\<close> in the environment of \<open>w\<close>.
\<close>

definition main_calls :: "real interpolant \<Rightarrow> nat \<Rightarrow> event list" where
  "main_calls interp n =
     (let prob = PObj (n + 2) 0;
          c0 = sqrt (1.4 * 287.058 * 300);
          rho0 = 1.4 * 98600 / (c0 * c0)
      in
     [Call PNone ''ViternaAirfoil'' [] [],
      Call (PObj n 0) ''create_akima'' [PStr ''mh117'']
        [(''Re_scaling'', PBool False), (''extend_alpha'', PBool True)],
      Call PNone ''Problem'' [] [],
      Call PNone ''IndepVarComp'' [] [],
      Call (PObj (n + 3) 0) ''add_discrete_input'' [PStr ''B''] [(''val'', PInt 3)],
      Call (PObj (n + 3) 0) ''add_output'' [PStr ''rho'']
        [(''val'', PFloat rho0), (''shape'', PInt 1), (''units'', PStr ''kg/m**3'')],
      Call (PObj (n + 3) 0) ''add_output'' [PStr ''mu'']
        [(''val'', PFloat 1), (''shape'', PInt 1), (''units'', PStr ''N/m**2*s'')],
      Call (PObj (n + 3) 0) ''add_output'' [PStr ''asound'']
        [(''val'', PFloat c0), (''shape'', PInt 1), (''units'', PStr ''m/s'')],
      Call (PObj (n + 3) 0) ''add_output'' [PStr ''v'']
        [(''val'', PFloat 77.2), (''shape'', PInt 1), (''units'', PStr ''m/s'')],
      Call (PObj (n + 3) 0) ''add_output'' [PStr ''alpha'']
        [(''val'', PFloat 0), (''shape'', PInt 1), (''units'', PStr ''rad'')],
      Call (PObj (n + 3) 0) ''add_output'' [PStr ''incidence'']
        [(''val'', PFloat 0), (''shape'', PInt 1), (''units'', PStr ''rad'')],
      Call (PObj (n + 3) 0) ''add_output'' [PStr ''precone'']
        [(''val'', PFloat 0), (''units'', PStr ''deg'')],
      Call (PObj (n + 3) 0) ''add_output'' [PStr ''omega'']
        [(''val'', PFloat 236), (''shape'', PInt 1), (''units'', PStr ''rad/s'')],
      Call (PObj (n + 3) 0) ''add_output'' [PStr ''hub_diameter'']
        [(''val'', PFloat 30), (''shape'', PInt 1), (''units'', PStr ''cm'')],
      Call (PObj (n + 3) 0) ''add_output'' [PStr ''prop_diameter'']
        [(''val'', PFloat 150), (''shape'', PInt 1), (''units'', PStr ''cm'')],
      Call (PObj (n + 3) 0) ''add_output'' [PStr ''pitch'']
        [(''val'', PFloat 0), (''shape'', PInt 1), (''units'', PStr ''rad'')],
      Call (PObj (n + 3) 0) ''add_output'' [PStr ''chord_dv'']
        [(''val'', PFloat 10), (''shape'', PInt 6), (''units'', PStr ''cm'')],
      Call (PObj (n + 3) 0) ''add_output'' [PStr ''theta_dv'']
        [(''val'', PArray (map (\<lambda>x. x * pi / 180) (linspace 65 25 6))), (''shape'', PInt 6),
         (''units'', PStr ''rad'')],
      Call prob ''model.add_subsystem'' [PStr ''indep_var_comp'', PObj (n + 3) 0]
        [(''promotes'', PList [PStr ''*''])],
      Call PNone ''GeometryGroup'' []
        [(''num_nodes'', PInt 1), (''num_cp'', PInt 6), (''num_radial'', PInt 15)],
      Call prob ''model.add_subsystem'' [PStr ''geometry_group'', PObj (n + 19) 0]
        [(''promotes_inputs'',
            PList [PStr ''hub_diameter'', PStr ''prop_diameter'', PStr ''chord_dv'',
                   PStr ''theta_dv'', PStr ''pitch'']),
         (''promotes_outputs'',
            PList [PStr ''radii'', PStr ''dradii'', PStr ''chord'', PStr ''theta''])],
      Call PNone ''SimpleInflow'' [] [(''num_nodes'', PInt 1), (''num_radial'', PInt 15)],
      Call prob ''model.add_subsystem'' [PStr ''inflow_comp'', PObj (n + 21) 0]
        [(''promotes_inputs'', PList [PStr ''v'', PStr ''omega'', PStr ''radii'', PStr ''precone'']),
         (''promotes_outputs'', PList [PStr ''Vx'', PStr ''Vy''])],
      Call PNone ''CCBladeGroup'' []
        [(''num_nodes'', PInt 1), (''num_radial'', PInt 15), (''num_blades'', PInt 3),
         (''airfoil_interp'', PFun (ccblade_interp interp)), (''turbine'', PBool False),
         (''phi_residual_solve_nonlinear'', PStr ''bracketing'')],
      Call prob ''model.add_subsystem'' [PStr ''ccblade_group'', PObj (n + 23) 0]
        [(''promotes_inputs'',
            PList [PStr ''radii'', PStr ''dradii'', PStr ''chord'', PStr ''theta'', PStr ''rho'',
                   PStr ''mu'', PStr ''asound'', PStr ''v'', PStr ''omega'', PStr ''Vx'', PStr ''Vy'',
                   PStr ''precone'', PStr ''hub_diameter'', PStr ''prop_diameter'']),
         (''promotes_outputs'', PList [PStr ''thrust'', PStr ''torque'', PStr ''efficiency''])],
      Call prob ''model.add_design_var'' [PStr ''chord_dv'']
        [(''lower'', PFloat 1), (''upper'', PFloat 20), (''scaler'', PFloat (5 / 100))],
      Call prob ''model.add_design_var'' [PStr ''theta_dv'']
        [(''lower'', PFloat (20 * pi / 180)), (''upper'', PFloat (90 * pi / 180))],
      Call prob ''model.add_objective'' [PStr ''efficiency''] [(''scaler'', PFloat (- 1))],
      Call prob ''model.add_constraint'' [PStr ''thrust'']
        [(''equals'', PFloat 700), (''scaler'', PFloat (1 / 1000)), (''indices'', PIntArray [0])],
      Call PNone ''pyOptSparseDriver'' [] [],
      SetAttr prob ''driver'' (PObj (n + 29) 0),
      SetItem prob ''driver.options'' (PStr ''optimizer'') (PStr ''SNOPT''),
      Call prob ''setup'' [] [],
      Call prob ''final_setup'' [] [],
      Call PNone ''time.time'' [] [],
      Call prob ''run_driver'' [] [],
      Call PNone ''time.time'' [] []])"

definition full_calls :: "world \<Rightarrow> nat \<Rightarrow> event list" where
  "full_calls w n =
     main_calls (interps w (n + 1)) n @
     plot_calls (PObj (n + 2) 0) (ints w (n + 38)) (arrays w (n + 39) ! 0)
       (arrays w (n + 40) ! 0) (arrays w (n + 41) ! 0) (n + 37)"

text \<open>
  A sample environment: no call raises, call number \<open>k\<close> reads the clock as
  \<open>k\<close>, every array has one row, the blade count is 3 and the interpolant returns
  its argument.
\<close>

definition quiet_world :: world where
  "quiet_world = \<lparr>trace = [], exc = None, fails = (\<lambda>_. False), clock = (\<lambda>k. real k),
                   arrays = (\<lambda>_. [[1, 2]]), ints = (\<lambda>_. 3), interps = (\<lambda>_ x. Inr x)\<rparr>"

section \<open>Properties of the airfoil callback\<close>





text \<open>
  The layout matters: when the interpolant returns the transpose of its input,
  an array of the right size that is not contiguous, the reshape in place needs
  a copy and the callback raises, here for three points.
\<close>

lemma ccblade_interp_transposed_result_raises:
  "ccblade_interp (\<lambda>x. Inr (transpose2 x))
     \<lparr>shape = [3], strides = [1], data = [1, 2, 3 :: int]\<rparr>
     \<lparr>shape = [3], strides = [1], data = [10, 20, 30]\<rparr> Mach = Inl AttributeError"
  by (simp add: ccblade_interp_def flatten_def newaxis1_def concatenate_last_def transpose2_def
        set_shape_def is_c_contiguous_def nocopy_reshape_def upt_rec Let_def)

text \<open>
  Claim C8. The callback is insensitive to its \<open>Mach\<close> argument: two calls that
  differ only there return the same result, an error included.
\<close>

theorem ccblade_interp_ignores_Mach:
  "ccblade_interp interp alpha Re' Mach1 = ccblade_interp interp alpha Re' Mach2"
  by (simp add: ccblade_interp_def)

section \<open>Straight-line runs\<close>

lemma nofail_simps [simp]:
  "trace (nofail w) = trace w" "exc (nofail w) = exc w" "fails (nofail w) k = False"
  "clock (nofail w) = clock w" "arrays (nofail w) = arrays w" "ints (nofail w) = ints w"
  "interps (nofail w) = interps w"
  "nofail (w\<lparr>trace := t\<rparr>) = (nofail w)\<lparr>trace := t\<rparr>"
  "nofail (w\<lparr>exc := e\<rparr>) = (nofail w)\<lparr>exc := e\<rparr>"
  by (simp_all add: nofail_def)

lemma same_env_refl [simp]: "same_env w w"
  by (simp add: same_env_def)

lemma same_env_update [simp]:
  "same_env w (w'\<lparr>trace := t\<rparr>) = same_env w w'" "same_env w (w'\<lparr>exc := e\<rparr>) = same_env w w'"
  by (simp_all add: same_env_def)

lemma straightI:
  assumes "\<And>w. exc w \<noteq> None \<Longrightarrow> snd (run_state m w) = w"
      and "\<And>w. \<exists>es. trace (snd (run_state m w)) = trace w @ es"
      and "\<And>w. same_env w (snd (run_state m w))"
      and "\<And>w. exc w = None \<Longrightarrow> exc (snd (run_state m w)) = None \<Longrightarrow>
             run_state m (nofail w) = (fst (run_state m w), nofail (snd (run_state m w)))"
      and "\<And>w. exc w = None \<Longrightarrow> exc (snd (run_state m w)) \<noteq> None \<Longrightarrow>
             \<exists>es. trace (snd (run_state m (nofail w))) = trace (snd (run_state m w)) @ es"
  shows "straight m"
  unfolding straight_def using assms by blast

lemma straight_skip: "straight m \<Longrightarrow> exc w \<noteq> None \<Longrightarrow> snd (run_state m w) = w"
  unfolding straight_def by blast

lemma straight_mono: "straight m \<Longrightarrow> \<exists>es. trace (snd (run_state m w)) = trace w @ es"
  unfolding straight_def by blast

lemma straight_env: "straight m \<Longrightarrow> same_env w (snd (run_state m w))"
  unfolding straight_def by blast

lemma straight_done:
  "straight m \<Longrightarrow> exc w = None \<Longrightarrow> exc (snd (run_state m w)) = None \<Longrightarrow>
     run_state m (nofail w) = (fst (run_state m w), nofail (snd (run_state m w)))"
  unfolding straight_def by blast

lemma straight_raised:
  "straight m \<Longrightarrow> exc w = None \<Longrightarrow> exc (snd (run_state m w)) \<noteq> None \<Longrightarrow>
     \<exists>es. trace (snd (run_state m (nofail w))) = trace (snd (run_state m w)) @ es"
  unfolding straight_def by blast

lemma straight_return: "straight (State_Monad.return x)"
  by (rule straightI) simp_all

lemma straight_ext: "straight (ext ev)"
  by (rule straightI) (auto simp: ext_def Let_def split: if_splits)

lemma straight_raise: "straight (raise e)"
  by (rule straightI) (auto simp: raise_def split: if_splits)

lemma straight_bind:
  assumes m: "straight m" and f: "\<And>a. straight (f a)"
  shows "straight (State_Monad.bind m f)"
proof (rule straightI)
  fix w :: world
  obtain a w1 where r1: "run_state m w = (a, w1)" by (cases "run_state m w")
  obtain b w2 where r2: "run_state (f a) w1 = (b, w2)" by (cases "run_state (f a) w1")
  show "\<exists>es. trace (snd (run_state (State_Monad.bind m f) w)) = trace w @ es"
    using straight_mono[OF m, of w] straight_mono[OF f, of a w1] by (auto simp: r1 r2)
  show "same_env w (snd (run_state (State_Monad.bind m f) w))"
    using straight_env[OF m, of w] straight_env[OF f, of w1 a]
    by (simp add: r1 r2 same_env_def)
  {
    assume e: "exc w \<noteq> None"
    have "w1 = w" using straight_skip[OF m e] r1 by simp
    then show "snd (run_state (State_Monad.bind m f) w) = w"
      using straight_skip[OF f, of w1 a] e r2 by (simp add: r1)
  }
  {
    assume e: "exc w = None" and e2: "exc (snd (run_state (State_Monad.bind m f) w)) = None"
    have e1: "exc w1 = None"
    proof (rule ccontr)
      assume "exc w1 \<noteq> None"
      then have "w2 = w1" using straight_skip[OF f, of w1 a] r2 by simp
      with e2 \<open>exc w1 \<noteq> None\<close> show False by (simp add: r1 r2)
    qed
    have "run_state m (nofail w) = (a, nofail w1)"
      using straight_done[OF m e] e1 r1 by simp
    moreover have "run_state (f a) (nofail w1) = (b, nofail w2)"
      using straight_done[OF f, of w1 a] e1 e2 by (simp add: r1 r2)
    ultimately show "run_state (State_Monad.bind m f) (nofail w)
        = (fst (run_state (State_Monad.bind m f) w), nofail (snd (run_state (State_Monad.bind m f) w)))"
      by (simp add: r1 r2)
  }
  {
    assume e: "exc w = None" and e2: "exc (snd (run_state (State_Monad.bind m f) w)) \<noteq> None"
    show "\<exists>es. trace (snd (run_state (State_Monad.bind m f) (nofail w)))
             = trace (snd (run_state (State_Monad.bind m f) w)) @ es"
    proof (cases "exc w1 = None")
      case True
      then have "run_state m (nofail w) = (a, nofail w1)"
        using straight_done[OF m e] r1 by simp
      moreover have "\<exists>es. trace (snd (run_state (f a) (nofail w1))) = trace w2 @ es"
        using straight_raised[OF f, of w1 a] True e2 by (simp add: r1 r2)
      ultimately show ?thesis by (simp add: r1 r2)
    next
      case False
      then have w2: "w2 = w1" using straight_skip[OF f, of w1 a] r2 by simp
      obtain a0 w01 where r01: "run_state m (nofail w) = (a0, w01)"
        by (cases "run_state m (nofail w)")
      have "\<exists>es. trace w01 = trace w1 @ es"
        using straight_raised[OF m e] False r1 r01 by simp
      moreover have "\<exists>es. trace (snd (run_state (f a0) w01)) = trace w01 @ es"
        using straight_mono[OF f, of a0 w01] .
      ultimately show ?thesis by (auto simp: r1 r2 r01 w2)
    qed
  }
qed

lemma straight_case_prod: "(\<And>a b. straight (f a b)) \<Longrightarrow> straight (case_prod f p)"
  by (cases p) simp

lemma straight_if: "straight m \<Longrightarrow> straight n \<Longrightarrow> straight (if c then m else n)"
  by simp

lemma straight_result:
  "straight (do { k \<leftarrow> ext ev; w \<leftarrow> State_Monad.get; State_Monad.return (g w k) })"
  if "\<And>w. g (nofail w) = g w" "\<And>w t. g (w\<lparr>trace := t\<rparr>) = g w"
  by (rule straightI) (auto simp: ext_def Let_def that split: if_splits)

lemmas prim_defs = import_module_def call_def new_def setattr_def setitem_def getitem_int_def
    time_time_def create_akima_def get_val_def subplots_def index_row_def

lemma straight_prims:
  "straight (import_module m)" "straight (call recv f args kwargs)" "straight (new cls args kwargs)"
  "straight (setattr recv a v)" "straight (setitem recv a key v)"
  "straight (getitem_int recv a key)" "straight time_time"
  "straight (create_akima recv name b1 b2)" "straight (get_val recv name units)"
  "straight subplots" "straight (index_row arr i)"
  unfolding prim_defs
  by (intro straight_bind straight_ext straight_return straight_result straight_if straight_raise;
      simp)+

lemma straight_make_plots: "straight (make_plots prob)"
  unfolding make_plots_def Let_def
  by (intro straight_bind straight_prims straight_return straight_case_prod)

lemma straight_main: "straight main"
  unfolding main_def Let_def
  by (intro straight_bind straight_prims straight_return straight_make_plots)

lemma straight_traverse_list:
  "(\<And>x. straight (f x)) \<Longrightarrow> straight (State_Monad.traverse_list f xs)"
  by (induction xs) (auto intro!: straight_bind straight_return)

lemma straight_script: "straight (script name)"
  unfolding script_def
  by (intro straight_bind straight_prims straight_return straight_main straight_if
        straight_traverse_list)

lemma calls_of_append:
  assumes "straight m"
  shows "trace (snd (run_state m w)) = trace w @ calls_of m w"
  using straight_mono[OF assms, of w] by (auto simp: calls_of_def)

lemma calls_of_nofail_prefix:
  assumes "straight m" and "exc w = None"
  shows "\<exists>es. calls_of m (nofail w) = calls_of m w @ es"
proof -
  obtain es1 where es1: "trace (snd (run_state m w)) = trace w @ es1"
    using straight_mono[OF assms(1)] by blast
  obtain es where es: "trace (snd (run_state m (nofail w))) = trace (snd (run_state m w)) @ es"
  proof (cases "exc (snd (run_state m w)) = None")
    case True
    then have "trace (snd (run_state m (nofail w))) = trace (snd (run_state m w)) @ []"
      using straight_done[OF assms] by simp
    then show ?thesis using that by blast
  next
    case False
    then show ?thesis using straight_raised[OF assms] that by blast
  qed
  show ?thesis by (simp add: calls_of_def es es1)
qed

lemma calls_of_completed:
  assumes "straight m" and "exc w = None" and "exc (snd (run_state m w)) = None"
  shows "calls_of m w = calls_of m (nofail w)"
    and "fst (run_state m w) = fst (run_state m (nofail w))"
    and "exc (snd (run_state m (nofail w))) = None"
  using straight_done[OF assms] assms(3) by (simp_all add: calls_of_def)

lemma straight_world:
  assumes "straight m" and "exc w = None" and "exc (snd (run_state m w)) = None"
  shows "snd (run_state m w) = w\<lparr>trace := trace w @ calls_of m w\<rparr>"
  using calls_of_append[OF assms(1), of w] straight_env[OF assms(1), of w] assms(2,3)
  by (intro world.equality) (simp_all add: same_env_def)

lemma bind_completed:
  assumes "straight m" and "\<And>a. straight (f a)"
      and "exc (snd (run_state (State_Monad.bind m f) w)) = None"
  shows "exc (snd (run_state m w)) = None"
proof (rule ccontr)
  assume e: "exc (snd (run_state m w)) \<noteq> None"
  have "snd (run_state (State_Monad.bind m f) w) = snd (run_state m w)"
    using straight_skip[OF assms(2) e] by (simp add: split_beta)
  with e assms(3) show False by simp
qed

section \<open>Evaluation in program order\<close>

lemma run_ext_ok:
  "exc w = None \<Longrightarrow> \<not> fails w (length (trace w)) \<Longrightarrow>
     run_state (ext ev) w = (length (trace w), w\<lparr>trace := trace w @ [ev]\<rparr>)"
  by (simp add: ext_def Let_def)

lemma run_ext_skip: "exc w \<noteq> None \<Longrightarrow> run_state (ext ev) w = (length (trace w), w)"
  by (simp add: ext_def Let_def)

lemma run_raise_ok: "exc w = None \<Longrightarrow> run_state (raise e) w = ((), w\<lparr>exc := Some e\<rparr>)"
  by (simp add: raise_def)

lemma run_raise_skip: "exc w \<noteq> None \<Longrightarrow> run_state (raise e) w = ((), w)"
  by (simp add: raise_def)

lemma run_bind_then: "run_state (State_Monad.bind m f) w = then_run (run_state m w) f"
  by (simp add: then_run_def split_beta)

lemma then_run_pair: "then_run (a, w) f = run_state (f a) w"
  by (simp add: then_run_def)

lemma then_run_cong: "p = q \<Longrightarrow> then_run p f = then_run q f"
  by simp

lemma bind_weak_cong: "m = m' \<Longrightarrow> State_Monad.bind m f = State_Monad.bind m' f"
  by simp

lemmas exec_simps = run_bind_then then_run_pair run_ext_ok run_ext_skip run_raise_ok run_raise_skip

section \<open>What one run of the script's functions does\<close>

lemma length_plot_calls: "length (plot_calls prob nb r a b n) = 21"
  by (simp add: plot_calls_def)

lemma length_main_calls: "length (main_calls interp n) = 37"
  by (simp add: main_calls_def Let_def)

lemma length_full_calls: "length (full_calls w n) = 58"
  by (simp add: full_calls_def length_main_calls length_plot_calls)

lemma full_calls_nofail: "full_calls (nofail w) n = full_calls w n"
  by (simp add: full_calls_def)

lemma make_plots_run:
  assumes "exc w = None" and "\<forall>k. \<not> fails w k" and "n = length (trace w)"
     and "arrays w (n + 2) \<noteq> []" and "arrays w (n + 3) \<noteq> []" and "arrays w (n + 4) \<noteq> []"
  shows "run_state (make_plots prob) w =
           ((), w\<lparr>trace := trace w @ plot_calls prob (ints w (n + 1)) (arrays w (n + 2) ! 0)
                                         (arrays w (n + 3) ! 0) (arrays w (n + 4) ! 0) n\<rparr>)"
  using assms unfolding make_plots_def prim_defs Let_def
  by (simp add: exec_simps plot_calls_def eval_nat_numeral
        del: run_state_bind cong: then_run_cong bind_weak_cong;
      simp add: then_run_def)

lemma make_plots_nofail:
  assumes "exc w = None" and "\<forall>k. \<not> fails w k" and "n = length (trace w)"
  shows "\<exists>k. calls_of (make_plots prob) w =
           take k (plot_calls prob (ints w (n + 1)) (arrays w (n + 2) ! 0)
                     (arrays w (n + 3) ! 0) (arrays w (n + 4) ! 0) n) \<and>
           (exc (snd (run_state (make_plots prob) w)) = None \<longrightarrow> k = 21)"
proof (cases "arrays w (n + 2) \<noteq> [] \<and> arrays w (n + 3) \<noteq> [] \<and> arrays w (n + 4) \<noteq> []")
  case True
  then show ?thesis
    using make_plots_run[OF assms, of prob]
    by (intro exI[of _ 21]) (simp add: calls_of_def length_plot_calls)
next
  case False
  let ?P = "plot_calls prob (ints w (n + 1)) (arrays w (n + 2) ! 0)
                     (arrays w (n + 3) ! 0) (arrays w (n + 4) ! 0) n"
  consider "arrays w (n + 2) = []"
    | "arrays w (n + 2) \<noteq> []" "arrays w (n + 3) = []"
    | "arrays w (n + 2) \<noteq> []" "arrays w (n + 3) \<noteq> []" "arrays w (n + 4) = []"
    using False by blast
  then show ?thesis
  proof cases
    case 1
    have "calls_of (make_plots prob) w = take 3 ?P \<and>
          exc (snd (run_state (make_plots prob) w)) \<noteq> None"
      using assms 1 unfolding make_plots_def prim_defs Let_def calls_of_def
      by (simp add: exec_simps plot_calls_def eval_nat_numeral
            del: run_state_bind cong: then_run_cong bind_weak_cong;
          simp add: then_run_def)
    then show ?thesis by (intro exI[of _ 3]) simp
  next
    case 2
    have "calls_of (make_plots prob) w = take 4 ?P \<and>
          exc (snd (run_state (make_plots prob) w)) \<noteq> None"
      using assms 2 unfolding make_plots_def prim_defs Let_def calls_of_def
      by (simp add: exec_simps plot_calls_def eval_nat_numeral
            del: run_state_bind cong: then_run_cong bind_weak_cong;
          simp add: then_run_def)
    then show ?thesis by (intro exI[of _ 4]) simp
  next
    case 3
    have "calls_of (make_plots prob) w = take 5 ?P \<and>
          exc (snd (run_state (make_plots prob) w)) \<noteq> None"
      using assms 3 unfolding make_plots_def prim_defs Let_def calls_of_def
      by (simp add: exec_simps plot_calls_def eval_nat_numeral
            del: run_state_bind cong: then_run_cong bind_weak_cong;
          simp add: then_run_def)
    then show ?thesis by (intro exI[of _ 5]) simp
  qed
qed

lemma make_plots_completed:
  assumes "exc w = None" and "exc (snd (run_state (make_plots prob) w)) = None"
  shows "calls_of (make_plots prob) w =
           plot_calls prob (ints w (length (trace w) + 1)) (arrays w (length (trace w) + 2) ! 0)
             (arrays w (length (trace w) + 3) ! 0) (arrays w (length (trace w) + 4) ! 0)
             (length (trace w))"
proof -
  note c = calls_of_completed[OF straight_make_plots assms]
  have nf: "exc (nofail w) = None" "\<forall>k. \<not> fails (nofail w) k"
      "length (trace w) = length (trace (nofail w))"
    using assms(1) by simp_all
  show ?thesis
    using make_plots_nofail[OF nf, of prob] c(1,3)
    by (elim exE conjE) (simp add: length_plot_calls)
qed

lemma main_run:
  assumes "exc w = None" and "\<forall>k. \<not> fails w k" and "n = length (trace w)"
  shows "run_state main w =
           (clock w (n + 36) - clock w (n + 34),
            snd (run_state (make_plots (PObj (n + 2) 0))
                   (w\<lparr>trace := trace w @ main_calls (interps w (n + 1)) n\<rparr>)))"
  using assms unfolding main_def prim_defs Let_def
  by (simp add: exec_simps main_calls_def Let_def eval_nat_numeral arange_def
        del: run_state_bind cong: then_run_cong bind_weak_cong;
      simp add: then_run_def)

lemma main_nofail:
  assumes "exc w = None" and "\<forall>k. \<not> fails w k"
  shows "\<exists>k. calls_of main w = take k (full_calls w (length (trace w))) \<and>
             (exc (snd (run_state main w)) = None \<longrightarrow> k = 58)"
    and "fst (run_state main w) = clock w (length (trace w) + 36) - clock w (length (trace w) + 34)"
proof -
  define n where "n = length (trace w)"
  define w1 where "w1 = w\<lparr>trace := trace w @ main_calls (interps w (n + 1)) n\<rparr>"
  define prob where "prob = PObj (n + 2) 0"
  have run: "run_state main w =
      (clock w (n + 36) - clock w (n + 34), snd (run_state (make_plots prob) w1))"
    using main_run[OF assms n_def] by (simp add: w1_def prob_def)
  show "fst (run_state main w) = clock w (length (trace w) + 36) - clock w (length (trace w) + 34)"
    by (simp add: run n_def)
  have w1: "exc w1 = None" "\<forall>k. \<not> fails w1 k" "n + 37 = length (trace w1)"
    using assms by (simp_all add: w1_def n_def length_main_calls)
  have oracles: "ints w1 = ints w" "arrays w1 = arrays w"
    by (simp_all add: w1_def)
  have ar: "n + 37 + 1 = n + 38" "n + 37 + 2 = n + 39" "n + 37 + 3 = n + 40" "n + 37 + 4 = n + 41"
    by simp_all
  obtain k where k: "calls_of (make_plots prob) w1 =
        take k (plot_calls prob (ints w (n + 38)) (arrays w (n + 39) ! 0)
                  (arrays w (n + 40) ! 0) (arrays w (n + 41) ! 0) (n + 37))"
      "exc (snd (run_state (make_plots prob) w1)) = None \<longrightarrow> k = 21"
    using make_plots_nofail[OF w1, of prob, unfolded ar oracles] by (elim exE conjE) simp
  have fc: "full_calls w n = main_calls (interps w (n + 1)) n @
        plot_calls prob (ints w (n + 38)) (arrays w (n + 39) ! 0)
          (arrays w (n + 40) ! 0) (arrays w (n + 41) ! 0) (n + 37)"
    by (simp only: full_calls_def prob_def)
  have tr: "trace (snd (run_state main w)) = trace w1 @ calls_of (make_plots prob) w1"
    using calls_of_append[OF straight_make_plots, of prob w1] by (simp add: run)
  have "calls_of main w = main_calls (interps w (n + 1)) n @ calls_of (make_plots prob) w1"
    by (simp add: calls_of_def tr) (simp add: w1_def n_def)
  also have "\<dots> = take (37 + k) (full_calls w n)"
    unfolding fc k(1) by (simp add: length_main_calls)
  finally have "calls_of main w = take (37 + k) (full_calls w n)" .
  moreover have "exc (snd (run_state main w)) = None \<longrightarrow> 37 + k = 58"
    using k(2) by (simp add: run)
  ultimately show "\<exists>k. calls_of main w = take k (full_calls w (length (trace w))) \<and>
             (exc (snd (run_state main w)) = None \<longrightarrow> k = 58)"
    unfolding n_def by (intro exI[of _ "37 + k"]) simp
qed

lemma main_calls_prefix:
  assumes "exc w = None"
  shows "\<exists>k. calls_of main w = take k (full_calls w (length (trace w)))"
proof -
  obtain es where es: "calls_of main (nofail w) = calls_of main w @ es"
    using calls_of_nofail_prefix[OF straight_main assms] by blast
  have nf: "exc (nofail w) = None" "\<forall>k. \<not> fails (nofail w) k"
    using assms by simp_all
  obtain k where k: "calls_of main (nofail w) = take k (full_calls w (length (trace w)))"
    using main_nofail(1)[OF nf] by (elim exE conjE) (simp add: full_calls_nofail)
  have "calls_of main w = take (length (calls_of main w)) (calls_of main (nofail w))"
    by (simp add: es)
  also have "\<dots> = take (min (length (calls_of main w)) k) (full_calls w (length (trace w)))"
    by (simp add: k)
  finally show ?thesis by (rule exI)
qed

lemma main_completed:
  assumes "exc w = None" and "exc (snd (run_state main w)) = None"
  shows "calls_of main w = full_calls w (length (trace w))"
    and "fst (run_state main w) = clock w (length (trace w) + 36) - clock w (length (trace w) + 34)"
proof -
  note c = calls_of_completed[OF straight_main assms]
  have nf: "exc (nofail w) = None" "\<forall>k. \<not> fails (nofail w) k"
    using assms(1) by simp_all
  obtain k where k: "calls_of main (nofail w) = take k (full_calls (nofail w) (length (trace w)))"
      "exc (snd (run_state main (nofail w))) = None \<longrightarrow> k = 58"
    using main_nofail(1)[OF nf] by (elim exE conjE) simp
  show "calls_of main w = full_calls w (length (trace w))"
    using c(1,3) k by (simp add: full_calls_nofail length_full_calls)
  show "fst (run_state main w) = clock w (length (trace w) + 36) - clock w (length (trace w) + 34)"
    using c(2) main_nofail(2)[OF nf] by simp
qed

lemma main_completed_run:
  assumes "exc w = None" and "exc (snd (run_state main w)) = None"
  shows "run_state main w =
           (clock w (length (trace w) + 36) - clock w (length (trace w) + 34),
            w\<lparr>trace := trace w @ full_calls w (length (trace w))\<rparr>)"
  using main_completed[OF assms] straight_world[OF straight_main assms]
  by (simp add: prod_eq_iff)

text \<open>
  When no external call raises and every array fetched has a row, both functions
  run to completion; the sample environment is such a one.
\<close>

lemma make_plots_nominal_completes:
  assumes "exc w = None" and "\<forall>k. \<not> fails w k" and "\<forall>k. arrays w k \<noteq> []"
  shows "exc (snd (run_state (make_plots prob) w)) = None"
proof -
  have "arrays w (length (trace w) + 2) \<noteq> []" "arrays w (length (trace w) + 3) \<noteq> []"
       "arrays w (length (trace w) + 4) \<noteq> []"
    using assms(3) by simp_all
  from make_plots_run[OF assms(1,2) refl this, of prob] show ?thesis
    using assms(1) by simp
qed

lemma main_nominal_completes:
  assumes "exc w = None" and "\<forall>k. \<not> fails w k" and "\<forall>k. arrays w k \<noteq> []"
  shows "exc (snd (run_state main w)) = None"
proof -
  define n where "n = length (trace w)"
  define w1 where "w1 = w\<lparr>trace := trace w @ main_calls (interps w (n + 1)) n\<rparr>"
  have "exc w1 = None" "\<forall>k. \<not> fails w1 k" "\<forall>k. arrays w1 k \<noteq> []"
    using assms by (simp_all add: w1_def)
  from make_plots_nominal_completes[OF this, of "PObj (n + 2) 0"] show ?thesis
    by (simp add: main_run[OF assms(1,2) n_def] w1_def)
qed

lemma quiet_world_facts:
  "exc quiet_world = None" "trace quiet_world = []" "fails quiet_world k = False"
  "arrays quiet_world k = [[1, 2]]" "ints quiet_world k = 3" "clock quiet_world k = real k"
  by (simp_all add: quiet_world_def)

lemma quiet_make_plots_completes: "exc (snd (run_state (make_plots prob) quiet_world)) = None"
  by (rule make_plots_nominal_completes) (simp_all add: quiet_world_facts)

lemma quiet_main_completes: "exc (snd (run_state main quiet_world)) = None"
  by (rule main_nominal_completes) (simp_all add: quiet_world_facts)

section \<open>The optimisation problem that main sets up\<close>

lemma filter_take_prefix: "prefix (filter P (take k xs)) (filter P xs)"
proof -
  have "filter P xs = filter P (take k xs) @ filter P (drop k xs)"
    by (metis append_take_drop_id filter_append)
  then show ?thesis by (simp add: prefix_def)
qed

lemma filter_calls_prefix:
  assumes "exc w = None"
  shows "prefix (filter P (calls_of main w)) (filter P (full_calls w (length (trace w))))"
  using main_calls_prefix[OF assms] filter_take_prefix by (elim exE) simp

lemmas full_calls_simps = full_calls_def main_calls_def plot_calls_def Let_def method_name_def

lemma design_vars_of_full_calls:
  "filter (is_call ''add_design_var'') (full_calls w n) =
     [Call (PObj (n + 2) 0) ''model.add_design_var'' [PStr ''chord_dv'']
        [(''lower'', PFloat 1), (''upper'', PFloat 20), (''scaler'', PFloat (5 / 100))],
      Call (PObj (n + 2) 0) ''model.add_design_var'' [PStr ''theta_dv'']
        [(''lower'', PFloat (20 * pi / 180)), (''upper'', PFloat (90 * pi / 180))]]"
  by (simp add: full_calls_simps)

text \<open>
  Claim C2. \<open>main\<close> declares exactly two design variables on the problem's model:
  \<open>chord_dv\<close> with lower bound 1, upper bound 20 and scaler 5e-2, and \<open>theta_dv\<close>
  with lower bound \<open>20 * pi / 180\<close> and upper bound \<open>90 * pi / 180\<close>. In every run
  the \<^verbatim>\<open>add_design_var\<close> calls made are an initial part of these two, in a run
  that completes they are exactly these two, and their receiver is the object
  that \<^verbatim>\<open>Problem()\<close> returned as the third call of the run.
\<close>

theorem main_declares_two_design_vars:
  assumes "exc w = None"
  shows "let prob = PObj (length (trace w) + 2) 0;
             dvs = [Call prob ''model.add_design_var'' [PStr ''chord_dv'']
                      [(''lower'', PFloat 1), (''upper'', PFloat 20), (''scaler'', PFloat (5 / 100))],
                    Call prob ''model.add_design_var'' [PStr ''theta_dv'']
                      [(''lower'', PFloat (20 * pi / 180)), (''upper'', PFloat (90 * pi / 180))]];
             declared = filter (is_call ''add_design_var'') (calls_of main w)
         in prefix declared dvs \<and>
            (exc (snd (run_state main w)) = None \<longrightarrow>
               declared = dvs \<and> calls_of main w ! 2 = Call PNone ''Problem'' [] [])"
proof -
  have "calls_of main w ! 2 = Call PNone ''Problem'' [] []"
    if "exc (snd (run_state main w)) = None"
    using main_completed(1)[OF assms that] by (simp add: full_calls_simps)
  then show ?thesis
    using filter_calls_prefix[OF assms, of "is_call ''add_design_var''"] main_completed(1)[OF assms]
    by (simp add: Let_def design_vars_of_full_calls)
qed

theorem main_declares_two_design_vars_witness:
  "exc quiet_world = None \<and> exc (snd (run_state main quiet_world)) = None \<and>
   filter (is_call ''add_design_var'') (calls_of main quiet_world) =
     [Call (PObj 2 0) ''model.add_design_var'' [PStr ''chord_dv'']
        [(''lower'', PFloat 1), (''upper'', PFloat 20), (''scaler'', PFloat (5 / 100))],
      Call (PObj 2 0) ''model.add_design_var'' [PStr ''theta_dv'']
        [(''lower'', PFloat (20 * pi / 180)), (''upper'', PFloat (90 * pi / 180))]]"
  using main_declares_two_design_vars[of quiet_world] quiet_main_completes
  by (simp add: quiet_world_facts Let_def)

text \<open>
  Claim C3. \<open>main\<close> makes a \<^verbatim>\<open>pyOptSparseDriver\<close> the problem's driver and sets
  its option \<open>optimizer\<close> to \<open>SNOPT\<close>, declares \<open>efficiency\<close> as the one objective,
  with scaler \<open>-1\<close> (so that the minimising driver maximises it), and calls
  \<^verbatim>\<open>prob.run_driver()\<close> once: never twice in any run, and exactly once, after the
  driver is configured, in a run that completes.
\<close>

theorem main_configures_driver_and_objective:
  assumes "exc w = None"
  shows "let n = length (trace w); prob = PObj (n + 2) 0; calls = calls_of main w in
           prefix (filter (is_call ''run_driver'') calls) [Call prob ''run_driver'' [] []] \<and>
           (exc (snd (run_state main w)) = None \<longrightarrow>
              calls ! 29 = Call PNone ''pyOptSparseDriver'' [] [] \<and>
              calls ! 30 = SetAttr prob ''driver'' (PObj (n + 29) 0) \<and>
              calls ! 31 = SetItem prob ''driver.options'' (PStr ''optimizer'') (PStr ''SNOPT'') \<and>
              calls ! 35 = Call prob ''run_driver'' [] [] \<and>
              filter (is_setattr ''driver'') calls = [SetAttr prob ''driver'' (PObj (n + 29) 0)] \<and>
              filter (is_setitem ''options'') calls =
                [SetItem prob ''driver.options'' (PStr ''optimizer'') (PStr ''SNOPT'')] \<and>
              filter (is_call ''add_objective'') calls =
                [Call prob ''model.add_objective'' [PStr ''efficiency''] [(''scaler'', PFloat (- 1))]] \<and>
              filter (is_call ''run_driver'') calls = [Call prob ''run_driver'' [] []])"
proof -
  have "filter (is_call ''run_driver'') (full_calls w (length (trace w))) =
          [Call (PObj (length (trace w) + 2) 0) ''run_driver'' [] []]"
    by (simp add: full_calls_simps)
  then show ?thesis
    using filter_calls_prefix[OF assms, of "is_call ''run_driver''"] main_completed(1)[OF assms]
    by (simp add: Let_def) (simp add: full_calls_simps)
qed

theorem main_configures_driver_and_objective_witness:
  "exc quiet_world = None \<and> exc (snd (run_state main quiet_world)) = None \<and>
   calls_of main quiet_world ! 29 = Call PNone ''pyOptSparseDriver'' [] [] \<and>
   calls_of main quiet_world ! 30 = SetAttr (PObj 2 0) ''driver'' (PObj 29 0) \<and>
   filter (is_call ''add_objective'') (calls_of main quiet_world) =
     [Call (PObj 2 0) ''model.add_objective'' [PStr ''efficiency''] [(''scaler'', PFloat (- 1))]] \<and>
   filter (is_call ''run_driver'') (calls_of main quiet_world) = [Call (PObj 2 0) ''run_driver'' [] []]"
  using main_configures_driver_and_objective[of quiet_world] quiet_main_completes
  by (simp add: quiet_world_facts Let_def)

text \<open>
  Claim C4. \<open>main\<close> adds exactly one constraint: \<open>thrust\<close> equal to 700, with
  scaler 1e-3, over the indices \<^verbatim>\<open>np.arange(num_nodes)\<close> with \<open>num_nodes = 1\<close>, that
  is over index 0 alone. No run makes another \<^verbatim>\<open>add_constraint\<close> call.
\<close>

theorem main_adds_one_thrust_constraint:
  assumes "exc w = None"
  shows "let prob = PObj (length (trace w) + 2) 0;
             constraints = filter (is_call ''add_constraint'') (calls_of main w);
             thrust = Call prob ''model.add_constraint'' [PStr ''thrust'']
                        [(''equals'', PFloat 700), (''scaler'', PFloat (1 / 1000)),
                         (''indices'', PIntArray (arange 1))]
         in arange 1 = [0] \<and> prefix constraints [thrust] \<and>
            (exc (snd (run_state main w)) = None \<longrightarrow> constraints = [thrust])"
proof -
  have "filter (is_call ''add_constraint'') (full_calls w (length (trace w))) =
          [Call (PObj (length (trace w) + 2) 0) ''model.add_constraint'' [PStr ''thrust'']
             [(''equals'', PFloat 700), (''scaler'', PFloat (1 / 1000)),
              (''indices'', PIntArray (arange 1))]]"
    by (simp add: full_calls_simps arange_def)
  then show ?thesis
    using filter_calls_prefix[OF assms, of "is_call ''add_constraint''"] main_completed(1)[OF assms]
    by (simp add: Let_def) (simp add: arange_def)
qed

theorem main_adds_one_thrust_constraint_witness:
  "exc quiet_world = None \<and> exc (snd (run_state main quiet_world)) = None \<and>
   filter (is_call ''add_constraint'') (calls_of main quiet_world) =
     [Call (PObj 2 0) ''model.add_constraint'' [PStr ''thrust'']
        [(''equals'', PFloat 700), (''scaler'', PFloat (1 / 1000)), (''indices'', PIntArray [0])]]"
  using main_adds_one_thrust_constraint[of quiet_world] quiet_main_completes
  by (simp add: quiet_world_facts Let_def arange_def)

text \<open>
  Claim C7. \<open>main\<close> connects its four subsystems by promoted names only. The
  \<^verbatim>\<open>add_subsystem\<close> calls of a complete run are, in order: \<open>indep_var_comp\<close> (the
  \<^verbatim>\<open>IndepVarComp\<close>) promoting everything; \<open>geometry_group\<close> (the \<^verbatim>\<open>GeometryGroup\<close>)
  with inputs \<open>hub_diameter\<close>, \<open>prop_diameter\<close>, \<open>chord_dv\<close>, \<open>theta_dv\<close>, \<open>pitch\<close>
  and outputs \<open>radii\<close>, \<open>dradii\<close>, \<open>chord\<close>, \<open>theta\<close>; \<open>inflow_comp\<close> (the
  \<^verbatim>\<open>SimpleInflow\<close>) with inputs \<open>v\<close>, \<open>omega\<close>, \<open>radii\<close>, \<open>precone\<close> and outputs
  \<open>Vx\<close>, \<open>Vy\<close>; \<open>ccblade_group\<close> (the \<^verbatim>\<open>CCBladeGroup\<close>) with the geometry and
  inflow outputs among its inputs and outputs \<open>thrust\<close>, \<open>torque\<close>, \<open>efficiency\<close>.
  No run makes a \<^verbatim>\<open>connect\<close> call.
\<close>

theorem main_wires_subsystems_by_promotion:
  assumes "exc w = None"
  shows "let n = length (trace w); prob = PObj (n + 2) 0; calls = calls_of main w in
           filter (is_call ''connect'') calls = [] \<and>
           (exc (snd (run_state main w)) = None \<longrightarrow>
              calls ! 3 = Call PNone ''IndepVarComp'' [] [] \<and>
              calls ! 19 = Call PNone ''GeometryGroup'' []
                 [(''num_nodes'', PInt 1), (''num_cp'', PInt 6), (''num_radial'', PInt 15)] \<and>
              calls ! 21 = Call PNone ''SimpleInflow'' []
                 [(''num_nodes'', PInt 1), (''num_radial'', PInt 15)] \<and>
              calls ! 23 = Call PNone ''CCBladeGroup'' []
                 [(''num_nodes'', PInt 1), (''num_radial'', PInt 15), (''num_blades'', PInt 3),
                  (''airfoil_interp'', PFun (ccblade_interp (interps w (n + 1)))),
                  (''turbine'', PBool False),
                  (''phi_residual_solve_nonlinear'', PStr ''bracketing'')] \<and>
              filter (is_call ''add_subsystem'') calls =
                [Call prob ''model.add_subsystem'' [PStr ''indep_var_comp'', PObj (n + 3) 0]
                   [(''promotes'', PList [PStr ''*''])],
                 Call prob ''model.add_subsystem'' [PStr ''geometry_group'', PObj (n + 19) 0]
                   [(''promotes_inputs'',
                       PList [PStr ''hub_diameter'', PStr ''prop_diameter'', PStr ''chord_dv'',
                              PStr ''theta_dv'', PStr ''pitch'']),
                    (''promotes_outputs'',
                       PList [PStr ''radii'', PStr ''dradii'', PStr ''chord'', PStr ''theta''])],
                 Call prob ''model.add_subsystem'' [PStr ''inflow_comp'', PObj (n + 21) 0]
                   [(''promotes_inputs'',
                       PList [PStr ''v'', PStr ''omega'', PStr ''radii'', PStr ''precone'']),
                    (''promotes_outputs'', PList [PStr ''Vx'', PStr ''Vy''])],
                 Call prob ''model.add_subsystem'' [PStr ''ccblade_group'', PObj (n + 23) 0]
                   [(''promotes_inputs'',
                       PList [PStr ''radii'', PStr ''dradii'', PStr ''chord'', PStr ''theta'',
                              PStr ''rho'', PStr ''mu'', PStr ''asound'', PStr ''v'', PStr ''omega'',
                              PStr ''Vx'', PStr ''Vy'', PStr ''precone'', PStr ''hub_diameter'',
                              PStr ''prop_diameter'']),
                    (''promotes_outputs'',
                       PList [PStr ''thrust'', PStr ''torque'', PStr ''efficiency''])]])"
proof -
  have "filter (is_call ''connect'') (full_calls w (length (trace w))) = []"
    by (simp add: full_calls_simps)
  then have "filter (is_call ''connect'') (calls_of main w) = []"
    using filter_calls_prefix[OF assms, of "is_call ''connect''"] by simp
  then show ?thesis
    using main_completed(1)[OF assms]
    by (simp add: Let_def) (simp add: full_calls_simps)
qed

theorem main_wires_subsystems_by_promotion_witness:
  "exc quiet_world = None \<and> exc (snd (run_state main quiet_world)) = None \<and>
   filter (is_call ''connect'') (calls_of main quiet_world) = [] \<and>
   length (filter (is_call ''add_subsystem'') (calls_of main quiet_world)) = 4 \<and>
   calls_of main quiet_world ! 3 = Call PNone ''IndepVarComp'' [] []"
  using main_wires_subsystems_by_promotion[of quiet_world] quiet_main_completes
  by (simp add: quiet_world_facts Let_def)

lemma main_calls_not_plotting: "list_all (\<lambda>e. \<not> plotting e) (main_calls interp n)"
  by (simp add: main_calls_def Let_def)

lemma plot_calls_plotting: "list_all plotting (plot_calls prob nb r a b n)"
  by (simp add: plot_calls_def)

lemma plotting_position:
  assumes "j < 58" and "plotting (full_calls w n ! j)"
  shows "37 \<le> j"
proof (rule ccontr)
  assume "\<not> 37 \<le> j"
  then have j: "j < length (main_calls (interps w (n + 1)) n)"
    by (simp add: length_main_calls)
  then have "full_calls w n ! j = main_calls (interps w (n + 1)) n ! j"
    by (simp add: full_calls_def nth_append)
  moreover have "\<not> plotting (main_calls (interps w (n + 1)) n ! j)"
    using main_calls_not_plotting[of "interps w (n + 1)" n] j by (simp add: list_all_length)
  ultimately show False using assms(2) by simp
qed

text \<open>
  Claim C5. In every run of \<open>main\<close>, whether it completes or an external call
  raises, nothing of the plotting happens before the optimiser run has returned:
  an event of \<^verbatim>\<open>make_plots\<close> in the trace comes after \<^verbatim>\<open>prob.setup()\<close>,
  \<^verbatim>\<open>prob.final_setup()\<close> and \<^verbatim>\<open>prob.run_driver()\<close>, which are there in this order.
  In a run that completes, the two figures are saved after these three calls.
\<close>

theorem main_plots_only_after_driver:
  assumes "exc w = None"
  shows "let prob = PObj (length (trace w) + 2) 0; calls = calls_of main w in
           (\<forall>j < length calls. plotting (calls ! j) \<longrightarrow>
              35 < j \<and>
              calls ! 32 = Call prob ''setup'' [] [] \<and>
              calls ! 33 = Call prob ''final_setup'' [] [] \<and>
              calls ! 35 = Call prob ''run_driver'' [] []) \<and>
           (exc (snd (run_state main w)) = None \<longrightarrow>
              list_all plotting (drop 37 calls) \<and>
              filter (\<lambda>e. is_call ''setup'' e \<or> is_call ''final_setup'' e \<or>
                           is_call ''run_driver'' e \<or> is_call ''savefig'' e) calls =
                [Call prob ''setup'' [] [], Call prob ''final_setup'' [] [],
                 Call prob ''run_driver'' [] [],
                 Call (PObj (length (trace w) + 42) 0) ''savefig''
                   [PStr ''pyccblade_normal_load.png''] [],
                 Call (PObj (length (trace w) + 50) 0) ''savefig''
                   [PStr ''pyccblade_circum_load.png''] []])"
proof -
  define n where "n = length (trace w)"
  obtain k where k: "calls_of main w = take k (full_calls w n)"
    using main_calls_prefix[OF assms] unfolding n_def by blast
  have before: "35 < j \<and>
      calls_of main w ! 32 = Call (PObj (n + 2) 0) ''setup'' [] [] \<and>
      calls_of main w ! 33 = Call (PObj (n + 2) 0) ''final_setup'' [] [] \<and>
      calls_of main w ! 35 = Call (PObj (n + 2) 0) ''run_driver'' [] []"
    if j: "j < length (calls_of main w)" and p: "plotting (calls_of main w ! j)" for j
  proof -
    have jk: "j < k" "j < 58"
      using j by (simp_all add: k length_full_calls)
    then have "plotting (full_calls w n ! j)"
      using p by (simp add: k)
    then have "37 \<le> j"
      using plotting_position jk(2) by blast
    then have "32 < k" "33 < k" "35 < k" "35 < j"
      using jk(1) by simp_all
    then show ?thesis
      by (simp add: k) (simp add: full_calls_simps)
  qed
  have after: "list_all plotting (drop 37 (calls_of main w)) \<and>
      filter (\<lambda>e. is_call ''setup'' e \<or> is_call ''final_setup'' e \<or>
                   is_call ''run_driver'' e \<or> is_call ''savefig'' e) (calls_of main w) =
        [Call (PObj (n + 2) 0) ''setup'' [] [], Call (PObj (n + 2) 0) ''final_setup'' [] [],
         Call (PObj (n + 2) 0) ''run_driver'' [] [],
         Call (PObj (n + 42) 0) ''savefig'' [PStr ''pyccblade_normal_load.png''] [],
         Call (PObj (n + 50) 0) ''savefig'' [PStr ''pyccblade_circum_load.png''] []]"
    if "exc (snd (run_state main w)) = None"
  proof -
    have c: "calls_of main w = full_calls w n"
      using main_completed(1)[OF assms that] by (simp add: n_def)
    have "drop 37 (full_calls w n) =
            plot_calls (PObj (n + 2) 0) (ints w (n + 38)) (arrays w (n + 39) ! 0)
              (arrays w (n + 40) ! 0) (arrays w (n + 41) ! 0) (n + 37)"
      by (simp add: full_calls_def length_main_calls)
    then have "list_all plotting (drop 37 (full_calls w n))"
      by (simp add: plot_calls_plotting)
    then show ?thesis
      unfolding c by (simp add: full_calls_simps)
  qed
  show ?thesis
    unfolding Let_def n_def[symmetric] using before after by blast
qed

theorem main_plots_only_after_driver_witness:
  "exc quiet_world = None \<and> exc (snd (run_state main quiet_world)) = None \<and>
   45 < length (calls_of main quiet_world) \<and> plotting (calls_of main quiet_world ! 45) \<and>
   calls_of main quiet_world ! 32 = Call (PObj 2 0) ''setup'' [] [] \<and>
   calls_of main quiet_world ! 33 = Call (PObj 2 0) ''final_setup'' [] [] \<and>
   calls_of main quiet_world ! 35 = Call (PObj 2 0) ''run_driver'' [] []"
proof -
  have c: "calls_of main quiet_world = full_calls quiet_world 0"
    using main_completed(1)[OF quiet_world_facts(1) quiet_main_completes]
    by (simp add: quiet_world_facts)
  have p: "45 < length (calls_of main quiet_world)" "plotting (calls_of main quiet_world ! 45)"
    unfolding c by (simp_all add: full_calls_simps)
  show ?thesis
    using main_plots_only_after_driver[of quiet_world] quiet_main_completes p
    by (simp add: quiet_world_facts Let_def)
qed

lemma linspace_theta: "linspace 65 25 6 = [65, 57, 49, 41, 33, 25]"
  by (simp add: linspace_def upt_rec)

text \<open>
  Claim C9. The initial design point lies strictly inside the declared bounds.
  In a complete run of \<open>main\<close>, every variable declared as a design variable was
  declared as an output of the same name whose initial value is strictly between
  the lower and the upper bound: \<open>chord_dv\<close> starts at 10, between 1 and 20, and
  every entry of \<open>theta_dv\<close>, \<open>linspace(65, 25, 6) * pi / 180\<close>, is between
  \<open>20 * pi / 180\<close> and \<open>90 * pi / 180\<close>.
\<close>

theorem main_initial_point_inside_bounds:
  assumes "exc w = None" and "exc (snd (run_state main w)) = None"
  shows "let calls = calls_of main w;
             initial = (\<lambda>name. map (kwarg ''val'')
                          (filter (\<lambda>e. is_call ''add_output'' e \<and> args_of e = [PStr name]) calls))
         in (\<forall>dv \<in> set calls. is_call ''add_design_var'' dv \<longrightarrow>
               (\<exists>out \<in> set calls. is_call ''add_output'' out \<and> args_of out = args_of dv \<and>
                  strictly_inside (kwarg ''lower'' dv) (kwarg ''upper'' dv) (kwarg ''val'' out))) \<and>
            initial ''chord_dv'' = [Some (PFloat 10)] \<and>
            initial ''theta_dv'' =
              [Some (PArray (map (\<lambda>x. x * pi / 180) [65, 57, 49, 41, 33, 25]))] \<and>
            (1 :: real) < 10 \<and> (10 :: real) < 20 \<and>
            list_all (\<lambda>t. 20 * pi / 180 < t \<and> t < 90 * pi / 180)
              (map (\<lambda>x. x * pi / 180) [65, 57, 49, 41, 33, 25])"
  unfolding Let_def main_completed(1)[OF assms]
  by (simp add: full_calls_simps linspace_theta)

theorem main_initial_point_inside_bounds_witness:
  "exc quiet_world = None \<and> exc (snd (run_state main quiet_world)) = None \<and>
   map (kwarg ''val'')
     (filter (\<lambda>e. is_call ''add_output'' e \<and> args_of e = [PStr ''chord_dv''])
        (calls_of main quiet_world)) = [Some (PFloat 10)] \<and>
   map (kwarg ''val'')
     (filter (\<lambda>e. is_call ''add_output'' e \<and> args_of e = [PStr ''theta_dv''])
        (calls_of main quiet_world)) =
     [Some (PArray (map (\<lambda>x. x * pi / 180) [65, 57, 49, 41, 33, 25]))]"
  using main_initial_point_inside_bounds[OF quiet_world_facts(1) quiet_main_completes]
    quiet_main_completes
  by (simp add: quiet_world_facts Let_def)

section \<open>The diagnostic plots\<close>

lemma make_plots_calls_prefix:
  assumes "exc w = None"
  shows "\<exists>k. calls_of (make_plots prob) w =
           take k (plot_calls prob (ints w (length (trace w) + 1))
                     (arrays w (length (trace w) + 2) ! 0) (arrays w (length (trace w) + 3) ! 0)
                     (arrays w (length (trace w) + 4) ! 0) (length (trace w)))"
proof -
  let ?P = "plot_calls prob (ints w (length (trace w) + 1))
                     (arrays w (length (trace w) + 2) ! 0) (arrays w (length (trace w) + 3) ! 0)
                     (arrays w (length (trace w) + 4) ! 0) (length (trace w))"
  obtain es where es: "calls_of (make_plots prob) (nofail w) = calls_of (make_plots prob) w @ es"
    using calls_of_nofail_prefix[OF straight_make_plots assms] by blast
  have nf: "exc (nofail w) = None" "\<forall>k. \<not> fails (nofail w) k"
      "length (trace w) = length (trace (nofail w))"
    using assms by simp_all
  obtain k where k: "calls_of (make_plots prob) (nofail w) = take k ?P"
    using make_plots_nofail[OF nf, of prob] by (elim exE conjE) simp
  have "calls_of (make_plots prob) w =
          take (length (calls_of (make_plots prob) w)) (calls_of (make_plots prob) (nofail w))"
    by (simp add: es)
  also have "\<dots> = take (min (length (calls_of (make_plots prob) w)) k) ?P"
    by (simp add: k)
  finally show ?thesis by (rule exI)
qed

lemma prints_and_saves:
  "filter (\<lambda>e. is_call ''print'' e \<or> is_call ''savefig'' e) (plot_calls prob nb r a b n) =
     [Call PNone ''print'' [PStr ''pyccblade_normal_load.png''] [],
      Call (PObj (n + 5) 0) ''savefig'' [PStr ''pyccblade_normal_load.png''] [],
      Call PNone ''print'' [PStr ''pyccblade_circum_load.png''] [],
      Call (PObj (n + 13) 0) ''savefig'' [PStr ''pyccblade_circum_load.png''] []]"
  by (simp add: plot_calls_def method_name_def)

text \<open>
  Claim C6. \<open>make_plots\<close> produces exactly two plot files,
  \<open>pyccblade_normal_load.png\<close> and then \<open>pyccblade_circum_load.png\<close>, and prints
  each name just before it saves the figure: in every run the \<^verbatim>\<open>print\<close> and
  \<^verbatim>\<open>savefig\<close> calls are an initial part of print, save, print, save, and in a run
  that completes they are all four. What is plotted is, against row 0 of
  \<^verbatim>\<open>get_val('radii', units='m')\<close>, row 0 of \<^verbatim>\<open>get_val('ccblade_group.Np', units='N/m')\<close>
  in the first figure and row 0 of \<^verbatim>\<open>get_val('ccblade_group.Tp', units='N/m')\<close> in the
  second, each entry multiplied by the option \<open>num_blades\<close> of the blade component.
\<close>

theorem make_plots_saves_two_files:
  assumes "exc w = None"
  shows "let n = length (trace w);
             calls = calls_of (make_plots prob) w;
             num_blades = real_of_int (ints w (n + 1));
             radii = arrays w (n + 2) ! 0;
             Np = arrays w (n + 3) ! 0;
             Tp = arrays w (n + 4) ! 0;
             files = [Call PNone ''print'' [PStr ''pyccblade_normal_load.png''] [],
                      Call (PObj (n + 5) 0) ''savefig'' [PStr ''pyccblade_normal_load.png''] [],
                      Call PNone ''print'' [PStr ''pyccblade_circum_load.png''] [],
                      Call (PObj (n + 13) 0) ''savefig'' [PStr ''pyccblade_circum_load.png''] []]
         in prefix (filter (\<lambda>e. is_call ''print'' e \<or> is_call ''savefig'' e) calls) files \<and>
            (exc (snd (run_state (make_plots prob) w)) = None \<longrightarrow>
               filter (\<lambda>e. is_call ''print'' e \<or> is_call ''savefig'' e) calls = files \<and>
               calls ! 1 = GetItem prob ''model.ccblade_group.ccblade_comp.options''
                             (PStr ''num_blades'') \<and>
               calls ! 2 = Call prob ''get_val'' [PStr ''radii''] [(''units'', PStr ''m'')] \<and>
               calls ! 3 = Call prob ''get_val'' [PStr ''ccblade_group.Np'']
                             [(''units'', PStr ''N/m'')] \<and>
               calls ! 4 = Call prob ''get_val'' [PStr ''ccblade_group.Tp'']
                             [(''units'', PStr ''N/m'')] \<and>
               calls ! 5 = Call PNone ''plt.subplots'' [] [] \<and>
               calls ! 13 = Call PNone ''plt.subplots'' [] [] \<and>
               filter (is_call ''plot'') calls =
                 [Call (PObj (n + 5) 1) ''plot''
                    [PArray radii, PArray (map (\<lambda>v. v * num_blades) Np)]
                    [(''label'', PStr ''CCBlade.jl'')],
                  Call (PObj (n + 13) 1) ''plot''
                    [PArray radii, PArray (map (\<lambda>v. v * num_blades) Tp)]
                    [(''label'', PStr ''CCBlade.jl'')]])"
proof -
  define n where "n = length (trace w)"
  let ?P = "plot_calls prob (ints w (n + 1)) (arrays w (n + 2) ! 0) (arrays w (n + 3) ! 0)
              (arrays w (n + 4) ! 0) n"
  obtain k where k: "calls_of (make_plots prob) w = take k ?P"
    using make_plots_calls_prefix[OF assms, of prob] unfolding n_def by blast
  have pre: "prefix (filter (\<lambda>e. is_call ''print'' e \<or> is_call ''savefig'' e)
                       (calls_of (make_plots prob) w))
               (filter (\<lambda>e. is_call ''print'' e \<or> is_call ''savefig'' e) ?P)"
    unfolding k by (rule filter_take_prefix)
  have c: "calls_of (make_plots prob) w = ?P"
    if "exc (snd (run_state (make_plots prob) w)) = None"
    using make_plots_completed[OF assms that] by (simp add: n_def)
  have nth: "?P ! 1 = GetItem prob ''model.ccblade_group.ccblade_comp.options'' (PStr ''num_blades'')"
      "?P ! 2 = Call prob ''get_val'' [PStr ''radii''] [(''units'', PStr ''m'')]"
      "?P ! 3 = Call prob ''get_val'' [PStr ''ccblade_group.Np''] [(''units'', PStr ''N/m'')]"
      "?P ! 4 = Call prob ''get_val'' [PStr ''ccblade_group.Tp''] [(''units'', PStr ''N/m'')]"
      "?P ! 5 = Call PNone ''plt.subplots'' [] []"
      "?P ! 13 = Call PNone ''plt.subplots'' [] []"
    by (simp_all add: plot_calls_def)
  have plots: "filter (is_call ''plot'') ?P =
      [Call (PObj (n + 5) 1) ''plot''
         [PArray (arrays w (n + 2) ! 0),
          PArray (map (\<lambda>v. v * real_of_int (ints w (n + 1))) (arrays w (n + 3) ! 0))]
         [(''label'', PStr ''CCBlade.jl'')],
       Call (PObj (n + 13) 1) ''plot''
         [PArray (arrays w (n + 2) ! 0),
          PArray (map (\<lambda>v. v * real_of_int (ints w (n + 1))) (arrays w (n + 4) ! 0))]
         [(''label'', PStr ''CCBlade.jl'')]]"
    by (simp add: plot_calls_def method_name_def)
  have completed:
    "filter (\<lambda>e. is_call ''print'' e \<or> is_call ''savefig'' e) (calls_of (make_plots prob) w) =
       [Call PNone ''print'' [PStr ''pyccblade_normal_load.png''] [],
        Call (PObj (n + 5) 0) ''savefig'' [PStr ''pyccblade_normal_load.png''] [],
        Call PNone ''print'' [PStr ''pyccblade_circum_load.png''] [],
        Call (PObj (n + 13) 0) ''savefig'' [PStr ''pyccblade_circum_load.png''] []] \<and>
     calls_of (make_plots prob) w ! 1 =
       GetItem prob ''model.ccblade_group.ccblade_comp.options'' (PStr ''num_blades'') \<and>
     calls_of (make_plots prob) w ! 2 =
       Call prob ''get_val'' [PStr ''radii''] [(''units'', PStr ''m'')] \<and>
     calls_of (make_plots prob) w ! 3 =
       Call prob ''get_val'' [PStr ''ccblade_group.Np''] [(''units'', PStr ''N/m'')] \<and>
     calls_of (make_plots prob) w ! 4 =
       Call prob ''get_val'' [PStr ''ccblade_group.Tp''] [(''units'', PStr ''N/m'')] \<and>
     calls_of (make_plots prob) w ! 5 = Call PNone ''plt.subplots'' [] [] \<and>
     calls_of (make_plots prob) w ! 13 = Call PNone ''plt.subplots'' [] [] \<and>
     filter (is_call ''plot'') (calls_of (make_plots prob) w) =
       [Call (PObj (n + 5) 1) ''plot''
          [PArray (arrays w (n + 2) ! 0),
           PArray (map (\<lambda>v. v * real_of_int (ints w (n + 1))) (arrays w (n + 3) ! 0))]
          [(''label'', PStr ''CCBlade.jl'')],
        Call (PObj (n + 13) 1) ''plot''
          [PArray (arrays w (n + 2) ! 0),
           PArray (map (\<lambda>v. v * real_of_int (ints w (n + 1))) (arrays w (n + 4) ! 0))]
          [(''label'', PStr ''CCBlade.jl'')]]"
    if "exc (snd (run_state (make_plots prob) w)) = None"
    unfolding c[OF that] nth plots prints_and_saves by (intro conjI refl)
  show ?thesis
    unfolding Let_def n_def[symmetric]
    using pre[unfolded prints_and_saves] completed by simp
qed

theorem make_plots_saves_two_files_witness:
  "exc quiet_world = None \<and> exc (snd (run_state (make_plots (PObj 2 0)) quiet_world)) = None \<and>
   filter (\<lambda>e. is_call ''print'' e \<or> is_call ''savefig'' e)
     (calls_of (make_plots (PObj 2 0)) quiet_world) =
     [Call PNone ''print'' [PStr ''pyccblade_normal_load.png''] [],
      Call (PObj 5 0) ''savefig'' [PStr ''pyccblade_normal_load.png''] [],
      Call PNone ''print'' [PStr ''pyccblade_circum_load.png''] [],
      Call (PObj 13 0) ''savefig'' [PStr ''pyccblade_circum_load.png''] []] \<and>
   filter (is_call ''plot'') (calls_of (make_plots (PObj 2 0)) quiet_world) =
     [Call (PObj 5 1) ''plot'' [PArray [1, 2], PArray [3, 6]] [(''label'', PStr ''CCBlade.jl'')],
      Call (PObj 13 1) ''plot'' [PArray [1, 2], PArray [3, 6]] [(''label'', PStr ''CCBlade.jl'')]]"
  using make_plots_saves_two_files[of quiet_world "PObj 2 0"]
    quiet_make_plots_completes[of "PObj 2 0"]
  by (simp add: quiet_world_facts Let_def)

section \<open>The timing loop of the script\<close>

lemma length_concat_blocks:
  assumes "\<And>j. length (B j) = c"
  shows "length (concat (map B [0..<m])) = c * m"
  by (induction m) (simp_all add: assms)

lemma block_of_concat:
  assumes "\<And>j. length (B j) = c" and "j < m"
  shows "take c (drop (c * j) (concat (map B [0..<m]) @ rest)) = B j"
proof -
  have "[0..<m] = [0..<j] @ j # [Suc j..<m]"
    using assms(2) by (metis le_add1 less_imp_le_nat upt_add_eq_append upt_conv_Cons add_0 le_add_diff_inverse)
  then have "concat (map B [0..<m]) @ rest =
      concat (map B [0..<j]) @ B j @ concat (map B [Suc j..<m]) @ rest"
    by simp
  then show ?thesis
    by (simp add: length_concat_blocks[of B c j, OF assms(1)] assms(1))
qed

lemma count_concat_blocks:
  assumes "\<And>j. length (filter P (B j)) = c"
  shows "length (filter P (concat (map B xs))) = c * length xs"
  by (induction xs) (simp_all add: assms)

lemma run_bind_completed:
  assumes "straight m" and "\<And>a. straight (f a)" and "exc w = None"
      and "exc (snd (run_state (State_Monad.bind m f) w)) = None"
  shows "exc (snd (run_state m w)) = None"
    and "run_state (State_Monad.bind m f) w =
           run_state (f (fst (run_state m w))) (w\<lparr>trace := trace w @ calls_of m w\<rparr>)"
proof -
  show e: "exc (snd (run_state m w)) = None"
    using bind_completed[OF assms(1,2,4)] .
  show "run_state (State_Monad.bind m f) w =
           run_state (f (fst (run_state m w))) (w\<lparr>trace := trace w @ calls_of m w\<rparr>)"
    using straight_world[OF assms(1,3) e] by (simp add: split_beta)
qed

lemma world_trace_same [simp]: "w\<lparr>trace := trace w\<rparr> = (w :: world)"
  by (cases w) simp

lemma repeat_main_completed:
  assumes "exc w = None"
      and "exc (snd (run_state (State_Monad.traverse_list (\<lambda>_. main) xs) w)) = None"
  shows "run_state (State_Monad.traverse_list (\<lambda>_. main) xs) w =
           (map (\<lambda>j. clock w (length (trace w) + 58 * j + 36) -
                      clock w (length (trace w) + 58 * j + 34)) [0..<length xs],
            w\<lparr>trace := trace w @
                 concat (map (\<lambda>j. full_calls w (length (trace w) + 58 * j)) [0..<length xs])\<rparr>)"
  using assms
proof (induction xs arbitrary: w)
  case Nil
  then show ?case by simp
next
  case (Cons x xs)
  define n where "n = length (trace w)"
  define w1 where "w1 = w\<lparr>trace := trace w @ full_calls w n\<rparr>"
  define m where "m = length xs"
  let ?rest = "\<lambda>y. State_Monad.bind (State_Monad.traverse_list (\<lambda>_. main) xs)
                       (\<lambda>ys. State_Monad.return (y # ys))"
  have T: "State_Monad.traverse_list (\<lambda>_. main) (x # xs) = State_Monad.bind main ?rest"
    by simp
  have st: "\<And>y. straight (?rest y)"
    by (intro straight_bind straight_traverse_list straight_main straight_return)
  have e1: "exc (snd (run_state main w)) = None"
    using Cons.prems(2) unfolding T
    by (rule run_bind_completed(1)[of main ?rest, OF straight_main st Cons.prems(1)])
  have r1: "run_state main w = (clock w (n + 36) - clock w (n + 34), w1)"
    using main_completed_run[OF Cons.prems(1) e1] by (simp add: w1_def n_def)
  have e2: "exc (snd (run_state (State_Monad.traverse_list (\<lambda>_. main) xs) w1)) = None"
    using Cons.prems(2) by (simp add: r1 split_beta)
  have w1: "exc w1 = None" "length (trace w1) = n + 58" "clock w1 = clock w"
    using Cons.prems(1) by (simp_all add: w1_def n_def length_full_calls)
  have fc: "\<And>k. full_calls w1 k = full_calls w k"
    by (simp add: w1_def full_calls_def)
  have IH: "run_state (State_Monad.traverse_list (\<lambda>_. main) xs) w1 =
      (map (\<lambda>j. clock w (n + 58 + 58 * j + 36) - clock w (n + 58 + 58 * j + 34)) [0..<m],
       w1\<lparr>trace := trace w1 @ concat (map (\<lambda>j. full_calls w (n + 58 + 58 * j)) [0..<m])\<rparr>)"
    using Cons.IH[OF w1(1) e2] by (simp only: w1 fc m_def)
  have shift: "\<And>j. n + 58 * Suc j = n + 58 + 58 * j"
    by simp
  have times: "map (\<lambda>j. clock w (n + 58 * j + 36) - clock w (n + 58 * j + 34)) [0..<Suc m] =
      (clock w (n + 36) - clock w (n + 34)) #
      map (\<lambda>j. clock w (n + 58 + 58 * j + 36) - clock w (n + 58 + 58 * j + 34)) [0..<m]"
    unfolding map_upt_Suc shift by simp
  have blocks: "concat (map (\<lambda>j. full_calls w (n + 58 * j)) [0..<Suc m]) =
      full_calls w n @ concat (map (\<lambda>j. full_calls w (n + 58 + 58 * j)) [0..<m])"
    unfolding map_upt_Suc shift by simp
  have "run_state (State_Monad.traverse_list (\<lambda>_. main) (x # xs)) w =
      ((clock w (n + 36) - clock w (n + 34)) #
         map (\<lambda>j. clock w (n + 58 + 58 * j + 36) - clock w (n + 58 + 58 * j + 34)) [0..<m],
       w\<lparr>trace := trace w @ full_calls w n @
            concat (map (\<lambda>j. full_calls w (n + 58 + 58 * j)) [0..<m])\<rparr>)"
    by (simp add: r1 IH) (simp add: w1_def)
  moreover have "length (x # xs) = Suc m"
    by (simp add: m_def)
  ultimately show ?case
    unfolding n_def[symmetric] by (simp only: times blocks)
qed

lemma repeat_main_nominal_completes:
  assumes "exc w = None" and "\<forall>k. \<not> fails w k" and "\<forall>k. arrays w k \<noteq> []"
  shows "exc (snd (run_state (State_Monad.traverse_list (\<lambda>_. main) xs) w)) = None"
  using assms
proof (induction xs arbitrary: w)
  case Nil
  then show ?case by simp
next
  case (Cons x xs)
  define w1 where "w1 = w\<lparr>trace := trace w @ full_calls w (length (trace w))\<rparr>"
  have e1: "exc (snd (run_state main w)) = None"
    using main_nominal_completes[OF Cons.prems] .
  have r1: "snd (run_state main w) = w1"
    using main_completed_run[OF Cons.prems(1) e1] by (simp add: w1_def)
  have "exc w1 = None" "\<forall>k. \<not> fails w1 k" "\<forall>k. arrays w1 k \<noteq> []"
    using Cons.prems by (simp_all add: w1_def)
  from Cons.IH[OF this] show ?case
    using r1 by (simp add: split_beta)
qed

lemma script_run_completed:
  assumes "exc w = None" and "exc (snd (run_state (script ''__main__'') w)) = None"
  shows "calls_of (script ''__main__'') w =
           [Import ''time'', Import ''numpy'', Import ''openmdao.api'',
            Import ''openbemt.airfoils.process_airfoils'', Import ''ccblade.geometry'',
            Import ''ccblade.inflow'', Import ''ccblade.ccblade_py''] @
           concat (map (\<lambda>j. full_calls w (length (trace w) + 7 + 58 * j)) [0..<21]) @
           [Call PNone ''print''
              [PFString
                 [PStr ''average walltime = '',
                  PFloat (mean (map (\<lambda>j. clock w (length (trace w) + 7 + 58 * j + 36) -
                                            clock w (length (trace w) + 7 + 58 * j + 34)) [1..<21])),
                  PStr '' s, stddev = '',
                  PFloat (std (map (\<lambda>j. clock w (length (trace w) + 7 + 58 * j + 36) -
                                           clock w (length (trace w) + 7 + 58 * j + 34)) [1..<21])),
                  PStr '' s'']] []]"
proof -
  define n where "n = length (trace w)"
  define imps where "imps =
     [Import ''time'', Import ''numpy'', Import ''openmdao.api'',
      Import ''openbemt.airfoils.process_airfoils'', Import ''ccblade.geometry'',
      Import ''ccblade.inflow'', Import ''ccblade.ccblade_py'']"
  define v where "v = nofail w"
  define w7 where "w7 = v\<lparr>trace := trace v @ imps\<rparr>"
  define report where "report = (\<lambda>times. call PNone ''print''
         [PFString [PStr ''average walltime = '', PFloat (mean times), PStr '' s, stddev = '',
                    PFloat (std times), PStr '' s'']] [])"
  define T where "T = State_Monad.traverse_list (\<lambda>_. main) [0..<20]"
  define loop where "loop = State_Monad.bind main (\<lambda>_. State_Monad.bind T report)"
  define elapsed where "elapsed = (\<lambda>j. clock w (n + 7 + 58 * j + 36) - clock w (n + 7 + 58 * j + 34))"
  define block where "block = (\<lambda>j. full_calls w (n + 7 + 58 * j))"
  note c = calls_of_completed[OF straight_script assms]
  have v: "exc v = None" "\<forall>k. \<not> fails v k" "trace v = trace w" "clock v = clock w"
    using assms(1) by (simp_all add: v_def)
  have s1: "run_state (script ''__main__'') v = run_state loop w7"
    using v(1,2)
    unfolding script_def import_module_def loop_def report_def w7_def imps_def T_def
    by (simp add: exec_simps del: run_state_bind cong: then_run_cong bind_weak_cong)
  have e7: "exc (snd (run_state loop w7)) = None"
    using c(3) s1 by (simp add: v_def)
  have w7: "exc w7 = None" "length (trace w7) = n + 7" "clock w7 = clock w"
    using v by (simp_all add: w7_def imps_def n_def)
  have fc7: "\<And>k. full_calls w7 k = full_calls w k"
    by (simp add: w7_def v_def full_calls_def)
  have st_report: "\<And>t. straight (report t)"
    unfolding report_def by (rule straight_prims)
  have st_T: "straight T"
    unfolding T_def by (intro straight_traverse_list straight_main)
  let ?after = "\<lambda>_ :: real. State_Monad.bind T report"
  have st_after: "\<And>a. straight (?after a)"
    by (intro straight_bind st_T st_report)
  have e8: "exc (snd (run_state main w7)) = None"
    using e7 unfolding loop_def
    by (rule run_bind_completed(1)[of main ?after, OF straight_main st_after w7(1)])
  define w8 where "w8 = w7\<lparr>trace := trace w7 @ block 0\<rparr>"
  have r8: "snd (run_state main w7) = w8"
    using main_completed_run[OF w7(1) e8] by (simp add: w8_def block_def w7(2) fc7)
  have l8: "run_state loop w7 = run_state (State_Monad.bind T report) w8"
    using r8 by (simp add: loop_def split_beta)
  have w8: "exc w8 = None" "length (trace w8) = n + 65" "clock w8 = clock w"
    using w7 by (simp_all add: w8_def block_def length_full_calls)
  have fails8: "\<forall>k. \<not> fails w8 k"
    using v(2) by (simp add: w8_def w7_def)
  have fc8: "\<And>k. full_calls w8 k = full_calls w k"
    by (simp add: w8_def w7_def v_def full_calls_def)
  have e9: "exc (snd (run_state T w8)) = None"
    using e7 unfolding l8
    by (rule run_bind_completed(1)[of T report, OF st_T st_report w8(1)])
  define times where "times = map (\<lambda>j. clock w (n + 65 + 58 * j + 36) -
                                         clock w (n + 65 + 58 * j + 34)) [0..<20]"
  define w9 where "w9 = w8\<lparr>trace := trace w8 @
                               concat (map (\<lambda>j. full_calls w (n + 65 + 58 * j)) [0..<20])\<rparr>"
  have len20: "length [0..<20::nat] = 20"
    by simp
  have r9: "run_state T w8 = (times, w9)"
    using repeat_main_completed[OF w8(1) e9[unfolded T_def]]
    unfolding T_def len20 w8 fc8 times_def w9_def .
  have w9: "exc w9 = None" "\<not> fails w9 (length (trace w9))"
    using w8(1) fails8 by (simp_all add: w9_def)
  have r10: "snd (run_state (report times) w9) =
      w9\<lparr>trace := trace w9 @ [Call PNone ''print''
         [PFString [PStr ''average walltime = '', PFloat (mean times), PStr '' s, stddev = '',
                    PFloat (std times), PStr '' s'']] []]\<rparr>"
    unfolding report_def call_def using w9 by (simp add: run_ext_ok)
  have final: "snd (run_state (script ''__main__'') v) =
      w9\<lparr>trace := trace w9 @ [Call PNone ''print''
         [PFString [PStr ''average walltime = '', PFloat (mean times), PStr '' s, stddev = '',
                    PFloat (std times), PStr '' s'']] []]\<rparr>"
    unfolding s1 l8 using r9 r10 by simp
  have shift: "\<And>j. n + 7 + 58 * Suc j = n + 65 + 58 * j"
    by simp
  have b: "\<And>j. block (Suc j) = full_calls w (n + 65 + 58 * j)"
    unfolding block_def shift by (rule refl)
  have blocks: "block 0 @ concat (map (\<lambda>j. full_calls w (n + 65 + 58 * j)) [0..<20]) =
      concat (map block [0..<21])"
  proof -
    have "map block [0..<21] = block 0 # map (\<lambda>j. block (Suc j)) [0..<20]"
      using map_upt_Suc[of block 20] by simp
    then show ?thesis
      unfolding b by simp
  qed
  have e: "\<And>j. elapsed (Suc j) =
      clock w (n + 65 + 58 * j + 36) - clock w (n + 65 + 58 * j + 34)"
    unfolding elapsed_def shift by (rule refl)
  have elapsed: "times = map elapsed [1..<21]"
  proof -
    have "map elapsed [1..<21] = map elapsed (map Suc [0..<20])"
      by (simp add: map_Suc_upt)
    also have "\<dots> = map (\<lambda>j. elapsed (Suc j)) [0..<20]"
      by (simp only: map_map comp_def)
    finally show ?thesis
      unfolding e times_def by (rule sym)
  qed
  have "trace (snd (run_state (script ''__main__'') v)) =
      trace w @ imps @ concat (map block [0..<21]) @
      [Call PNone ''print''
         [PFString [PStr ''average walltime = '', PFloat (mean (map elapsed [1..<21])),
                    PStr '' s, stddev = '', PFloat (std (map elapsed [1..<21])), PStr '' s'']] []]"
    unfolding final elapsed[symmetric] blocks[symmetric]
    by (simp add: w9_def w8_def w7_def v(3))
  then have "calls_of (script ''__main__'') v =
      imps @ concat (map block [0..<21]) @
      [Call PNone ''print''
         [PFString [PStr ''average walltime = '', PFloat (mean (map elapsed [1..<21])),
                    PStr '' s, stddev = '', PFloat (std (map elapsed [1..<21])), PStr '' s'']] []]"
    by (simp add: calls_of_def v(3))
  then show ?thesis
    unfolding c(1) v_def[symmetric] imps_def block_def elapsed_def n_def .
qed

lemma script_nominal_completes:
  assumes "exc w = None" and "\<forall>k. \<not> fails w k" and "\<forall>k. arrays w k \<noteq> []"
  shows "exc (snd (run_state (script ''__main__'') w)) = None"
proof -
  define imps where "imps =
     [Import ''time'', Import ''numpy'', Import ''openmdao.api'',
      Import ''openbemt.airfoils.process_airfoils'', Import ''ccblade.geometry'',
      Import ''ccblade.inflow'', Import ''ccblade.ccblade_py'']"
  define w7 where "w7 = w\<lparr>trace := trace w @ imps\<rparr>"
  define report where "report = (\<lambda>times. call PNone ''print''
         [PFString [PStr ''average walltime = '', PFloat (mean times), PStr '' s, stddev = '',
                    PFloat (std times), PStr '' s'']] [])"
  define T where "T = State_Monad.traverse_list (\<lambda>_. main) [0..<20]"
  define loop where "loop = State_Monad.bind main (\<lambda>_. State_Monad.bind T report)"
  have s1: "run_state (script ''__main__'') w = run_state loop w7"
    using assms(1,2)
    unfolding script_def import_module_def loop_def report_def w7_def imps_def T_def
    by (simp add: exec_simps del: run_state_bind cong: then_run_cong bind_weak_cong)
  have w7: "exc w7 = None" "\<forall>k. \<not> fails w7 k" "\<forall>k. arrays w7 k \<noteq> []"
    using assms by (simp_all add: w7_def)
  define w8 where "w8 = w7\<lparr>trace := trace w7 @ full_calls w7 (length (trace w7))\<rparr>"
  have r8: "snd (run_state main w7) = w8"
    using main_completed_run[OF w7(1) main_nominal_completes[OF w7]] by (simp add: w8_def)
  have w8: "exc w8 = None" "\<forall>k. \<not> fails w8 k" "\<forall>k. arrays w8 k \<noteq> []"
    using w7 by (simp_all add: w8_def)
  have e9: "exc (snd (run_state T w8)) = None"
    unfolding T_def by (rule repeat_main_nominal_completes[OF w8])
  obtain times w9 where r9: "run_state T w8 = (times, w9)"
    by (cases "run_state T w8")
  have env: "same_env w8 w9"
    using straight_env[OF straight_traverse_list[of "\<lambda>_. main" "[0..<20]", OF straight_main], of w8]
      r9 by (simp add: T_def)
  have w9: "exc w9 = None" "\<not> fails w9 (length (trace w9))"
    using e9 r9 env w8(2) by (simp_all add: same_env_def)
  have "exc (snd (run_state (report times) w9)) = None"
    unfolding report_def call_def using w9 by (simp add: run_ext_ok)
  then show ?thesis
    unfolding s1 loop_def using r8 r9 by (simp add: split_beta)
qed

lemma quiet_script_completes: "exc (snd (run_state (script ''__main__'') quiet_world)) = None"
  by (rule script_nominal_completes) (simp_all add: quiet_world_facts)

lemma full_calls_nth:
  "full_calls w m ! 0 = Call PNone ''ViternaAirfoil'' [] []"
  "full_calls w m ! 34 = Call PNone ''time.time'' [] []"
  "full_calls w m ! 35 = Call (PObj (m + 2) 0) ''run_driver'' [] []"
  "full_calls w m ! 36 = Call PNone ''time.time'' [] []"
  by (simp_all add: full_calls_simps)

lemma full_calls_counts:
  "length (filter (is_call ''ViternaAirfoil'') (full_calls w m)) = 1"
  "length (filter (is_call ''run_driver'') (full_calls w m)) = 1"
  by (simp_all add: full_calls_simps)

text \<open>
  Claim C10. When the module runs as a script, to completion, \<open>main\<close> is invoked
  21 times: after the 7 imports the trace is 21 complete runs of \<open>main\<close>, one
  after the other, and then the \<^verbatim>\<open>print\<close>. The average and the standard deviation
  that are printed are those of the values returned by the last 20 invocations;
  the value of the first one is dropped. The value an invocation returns is the
  clock reading taken just after \<^verbatim>\<open>prob.run_driver()\<close> returned minus the one taken
  just before it was called, so that neither the setup nor the plotting is in it.
\<close>

theorem script_times_last_twenty_of_twenty_one_runs:
  assumes "exc w = None" and "exc (snd (run_state (script ''__main__'') w)) = None"
  shows "let n = length (trace w);
             calls = calls_of (script ''__main__'') w;
             start = (\<lambda>j. 7 + 58 * j);
             elapsed = (\<lambda>j. clock w (n + start j + 36) - clock w (n + start j + 34));
             times = map elapsed [1..<21]
         in length calls = 1226 \<and>
            (\<forall>j<21. take 58 (drop (start j) calls) = full_calls w (n + start j) \<and>
                     calls ! (start j) = Call PNone ''ViternaAirfoil'' [] [] \<and>
                     calls ! (start j + 34) = Call PNone ''time.time'' [] [] \<and>
                     calls ! (start j + 35) = Call (PObj (n + start j + 2) 0) ''run_driver'' [] [] \<and>
                     calls ! (start j + 36) = Call PNone ''time.time'' [] []) \<and>
            length (filter (is_call ''ViternaAirfoil'') calls) = 21 \<and>
            length (filter (is_call ''run_driver'') calls) = 21 \<and>
            last calls =
              Call PNone ''print''
                [PFString [PStr ''average walltime = '', PFloat (mean times),
                           PStr '' s, stddev = '', PFloat (std times), PStr '' s'']] [] \<and>
            (\<forall>v. exc v = None \<longrightarrow> exc (snd (run_state main v)) = None \<longrightarrow>
                 fst (run_state main v) =
                   clock v (length (trace v) + 36) - clock v (length (trace v) + 34))"
proof -
  define n where "n = length (trace w)"
  define calls where "calls = calls_of (script ''__main__'') w"
  define imps where "imps =
     [Import ''time'', Import ''numpy'', Import ''openmdao.api'',
      Import ''openbemt.airfoils.process_airfoils'', Import ''ccblade.geometry'',
      Import ''ccblade.inflow'', Import ''ccblade.ccblade_py'']"
  define block where "block = (\<lambda>j. full_calls w (n + (7 + 58 * j)))"
  define elapsed where
    "elapsed = (\<lambda>j. clock w (n + (7 + 58 * j) + 36) - clock w (n + (7 + 58 * j) + 34))"
  define report where "report =
     Call PNone ''print''
       [PFString [PStr ''average walltime = '', PFloat (mean (map elapsed [1..<21])),
                  PStr '' s, stddev = '', PFloat (std (map elapsed [1..<21])), PStr '' s'']] []"
  have assoc: "\<And>j. n + 7 + 58 * j = n + (7 + 58 * j)"
    by simp
  have calls: "calls = imps @ concat (map block [0..<21]) @ [report]"
    using script_run_completed[OF assms]
    unfolding calls_def imps_def block_def elapsed_def report_def n_def[symmetric] assoc .
  have len_imps: "length imps = 7"
    by (simp add: imps_def)
  have len_block: "\<And>j. length (block j) = 58"
    by (simp add: block_def length_full_calls)
  have len_blocks: "length (concat (map block [0..<21])) = 58 * 21"
    by (rule length_concat_blocks[OF len_block])
  have len: "length calls = 1226"
    by (simp add: calls len_blocks imps_def)
  have per_run: "take 58 (drop (7 + 58 * j) calls) = block j \<and>
      calls ! (7 + 58 * j) = Call PNone ''ViternaAirfoil'' [] [] \<and>
      calls ! (7 + 58 * j + 34) = Call PNone ''time.time'' [] [] \<and>
      calls ! (7 + 58 * j + 35) = Call (PObj (n + (7 + 58 * j) + 2) 0) ''run_driver'' [] [] \<and>
      calls ! (7 + 58 * j + 36) = Call PNone ''time.time'' [] []"
    if j: "j < 21" for j
  proof -
    have "drop (7 + 58 * j) calls = drop (58 * j) (concat (map block [0..<21]) @ [report])"
      unfolding calls by (simp add: len_imps)
    then have blk: "take 58 (drop (7 + 58 * j) calls) = block j"
      using block_of_concat[of block 58 j 21 "[report]", OF len_block j] by simp
    have nth: "calls ! (7 + 58 * j + i) = block j ! i" if "i < 58" for i
    proof -
      have "block j ! i = drop (7 + 58 * j) calls ! i"
        using that by (simp add: blk[symmetric])
      also have "\<dots> = calls ! (7 + 58 * j + i)"
        using j by (intro nth_drop) (simp add: len)
      finally show ?thesis by simp
    qed
    show ?thesis
      using blk nth[of 0] nth[of 34] nth[of 35] nth[of 36]
      by (simp add: block_def full_calls_nth)
  qed
  have count: "length (filter (is_call f) calls) = 21"
    if "\<And>j. length (filter (is_call f) (block j)) = 1" and "method_name ''print'' \<noteq> f" for f
    using count_concat_blocks[of "is_call f" block 1 "[0..<21]", OF that(1)] that(2)
    by (simp add: calls imps_def report_def)
  have counts: "length (filter (is_call ''ViternaAirfoil'') calls) = 21"
      "length (filter (is_call ''run_driver'') calls) = 21"
    by (rule count; simp add: block_def full_calls_counts method_name_def)+
  have last: "last calls = report"
    by (simp add: calls)
  have returned: "fst (run_state main v) =
      clock v (length (trace v) + 36) - clock v (length (trace v) + 34)"
    if "exc v = None" and "exc (snd (run_state main v)) = None" for v
    using main_completed(2)[OF that] .
  show ?thesis
    unfolding Let_def n_def[symmetric] calls_def[symmetric]
    using len per_run counts last returned
    unfolding block_def elapsed_def report_def by simp
qed

theorem script_times_last_twenty_of_twenty_one_runs_witness:
  "exc quiet_world = None \<and> exc (snd (run_state (script ''__main__'') quiet_world)) = None \<and>
   length (calls_of (script ''__main__'') quiet_world) = 1226 \<and>
   length (filter (is_call ''ViternaAirfoil'') (calls_of (script ''__main__'') quiet_world)) = 21 \<and>
   length (filter (is_call ''run_driver'') (calls_of (script ''__main__'') quiet_world)) = 21 \<and>
   last (calls_of (script ''__main__'') quiet_world) =
     Call PNone ''print''
       [PFString [PStr ''average walltime = '', PFloat 2, PStr '' s, stddev = '', PFloat 0,
                  PStr '' s'']] []"
  using script_times_last_twenty_of_twenty_one_runs[OF quiet_world_facts(1) quiet_script_completes]
    quiet_script_completes
  by (simp add: quiet_world_facts Let_def mean_def std_def sum_list_triv comp_def)


end
